theory Spec2Isabelle
  imports Complex_Main "HOL-Library.AList"
begin

section \<open>JavaScript values and the operations the handlers apply to them\<close>

text \<open>
  Tool arguments, GraphQL variables and response bodies are JSON values; the results of
  arithmetic add the three numbers JSON cannot write. An object is an association list in
  insertion order with one entry per key. A number that arrives in JSON is a finite
  double, hence a rational, and \<open>Math.min\<close> returns one of its arguments, so \<open>rat\<close> is
  exact for it. A value born from JSON has no callable property of its own.
\<close>

datatype jsval =
    JUndef
  | JNull
  | JBool bool
  | JNum rat
  | JNaN
  | JInfinity
  | JNegInfinity
  | JStr string
  | JArr "jsval list"
  | JObj "(string \<times> jsval) list"

type_synonym jsobject = "(string \<times> jsval) list"

text \<open>The result of \<open>ToNumber\<close>.\<close>

datatype jsnumber = Finite rat | NotANumber | PosInfinity | NegInfinity

text \<open>
  What can be thrown: an instance of \<open>Error\<close> (of which only \<open>message\<close> is ever read;
  a \<open>TypeError\<close> of the engine is one, with the wording of V8), the \<open>SuperOpsError\<close>
  subclass of client.ts with its \<open>code\<close> and \<open>retryAfter\<close>, or any other value.
\<close>

datatype js_exn =
    JsError string
  | SuperOpsError string jsval jsval
  | NonError jsval

text \<open>
  The GraphQL documents of the domain modules are constant template strings; they are
  named here, not transcribed. The custom domain sends whatever value the caller supplies.
\<close>

datatype document =
    LIST_CLIENTS_QUERY | GET_CLIENT_QUERY | SEARCH_CLIENTS_QUERY
  | LIST_TICKETS_QUERY | GET_TICKET_QUERY | CREATE_TICKET_MUTATION
  | UPDATE_TICKET_MUTATION | ADD_TICKET_NOTE_MUTATION | ADD_TIME_ENTRY_MUTATION
  | LIST_ASSETS_QUERY | GET_ASSET_QUERY | GET_ASSET_SOFTWARE_QUERY | GET_ASSET_PATCHES_QUERY
  | LIST_TECHNICIANS_QUERY | GET_TECHNICIAN_QUERY | LIST_TECH_GROUPS_QUERY
  | Supplied jsval

text \<open>
  What \<open>API_ENDPOINTS[region]\<close> reads from the two-entry object literal: one of its two
  strings, a member inherited from \<open>Object.prototype\<close>, or undefined.
\<close>

datatype endpoint_value = Url string | Inherited string | NoEndpoint

record http_request =
  url :: endpoint_value
  authorization :: string
  customerSubDomain :: string
  body_query :: document
  body_variables :: jsval

text \<open>
  The response of \<open>fetch\<close>: its \<open>ok\<close>, \<open>status\<close> and \<open>statusText\<close>, and what
  \<open>response.json()\<close> settles with: a rejection, or the parsed body, any JSON value.
\<close>

datatype json_outcome = JsonRejected js_exn | JsonParsed jsval

record http_response =
  ok :: bool
  status :: nat
  statusText :: string
  json :: json_outcome

datatype fetch_outcome = FetchRejected js_exn | Responded http_response

text \<open>
  Everything that lies outside the repository: the three environment variables, the
  network behind \<open>fetch\<close>, and four builtins of the engine that are taken as they are:
  the rendering of a finite number by \<open>String\<close>, \<open>JSON.stringify(v, null, 2)\<close> on a
  defined value, \<open>ToNumber\<close> on a string, and \<open>toUpperCase\<close> on a string that is not
  plain ASCII.
\<close>

record env =
  SUPEROPS_API_TOKEN :: "string option"
  SUPEROPS_SUBDOMAIN :: "string option"
  SUPEROPS_REGION :: "string option"
  fetch :: "http_request \<Rightarrow> fetch_outcome"
  numberToString :: "rat \<Rightarrow> string"
  stringifyPretty :: "jsval \<Rightarrow> string"
  stringToNumber :: "string \<Rightarrow> jsnumber"
  upperCaseOther :: "string \<Rightarrow> string"

fun truthy :: "jsval \<Rightarrow> bool" where
  "truthy JUndef = False"
| "truthy JNull = False"
| "truthy (JBool b) = b"
| "truthy (JNum n) = (n \<noteq> 0)"
| "truthy JNaN = False"
| "truthy JInfinity = True"
| "truthy JNegInfinity = True"
| "truthy (JStr s) = (s \<noteq> [])"
| "truthy (JArr xs) = True"
| "truthy (JObj kvs) = True"

text \<open>
  \<open>v.k\<close> for the keys the repository reads, none of which is a member of a prototype
  except \<open>length\<close> and the index \<open>0\<close> of strings and arrays: reading from null or
  undefined throws, an absent key reads undefined.
\<close>

definition quoted :: "string \<Rightarrow> string" where
  "quoted k = [CHR 0x27] @ k @ [CHR 0x27]"

fun member :: "jsval \<Rightarrow> string \<Rightarrow> js_exn + jsval" where
  "member JUndef k =
     Inl (JsError (''Cannot read properties of undefined (reading '' @ quoted k @ '')''))"
| "member JNull k =
     Inl (JsError (''Cannot read properties of null (reading '' @ quoted k @ '')''))"
| "member (JObj kvs) k = Inr (case map_of kvs k of None \<Rightarrow> JUndef | Some v \<Rightarrow> v)"
| "member (JStr s) k =
     Inr (if k = ''length'' then JNum (of_nat (length s))
          else if k = ''0'' \<and> s \<noteq> [] then JStr [hd s]
          else JUndef)"
| "member (JArr xs) k =
     Inr (if k = ''length'' then JNum (of_nat (length xs))
          else if k = ''0'' then (case xs of [] \<Rightarrow> JUndef | x # rest \<Rightarrow> x)
          else JUndef)"
| "member v k = Inr JUndef"

text \<open>\<open>v?.k\<close>\<close>

definition optional_member :: "jsval \<Rightarrow> string \<Rightarrow> js_exn + jsval" where
  "optional_member v k = (if v = JUndef \<or> v = JNull then Inr JUndef else member v k)"

text \<open>\<open>o.k\<close> on an object; on any other non-nullish value the keys read here are undefined.\<close>

fun getprop :: "jsval \<Rightarrow> string \<Rightarrow> jsval" where
  "getprop (JObj kvs) k = (case map_of kvs k of None \<Rightarrow> JUndef | Some v \<Rightarrow> v)"
| "getprop v k = JUndef"

definition get :: "jsobject \<Rightarrow> string \<Rightarrow> jsval" where
  "get args k = (case map_of args k of None \<Rightarrow> JUndef | Some v \<Rightarrow> v)"

text \<open>\<open>v ?? d\<close>\<close>

definition nullish :: "jsval \<Rightarrow> jsval \<Rightarrow> jsval" where
  "nullish v d = (if v = JUndef \<or> v = JNull then d else v)"

text \<open>\<open>...(c && obj)\<close> inside an object literal: a falsy \<open>c\<close> spreads to nothing.\<close>

definition spread_and :: "jsval \<Rightarrow> jsobject \<Rightarrow> jsobject" where
  "spread_and c obj = (if truthy c then obj else [])"

text \<open>
  \<open>String(v)\<close>. An array joins its elements with commas, null and undefined rendering as
  the empty string. An object is converted through its \<open>toString\<close>: the inherited one
  gives \<open>[object Object]\<close>; an own \<open>toString\<close> is not callable, the inherited
  \<open>valueOf\<close> returns the object itself, and the conversion throws a \<open>TypeError\<close>.
\<close>

fun intercalate :: "string \<Rightarrow> string list \<Rightarrow> string" where
  "intercalate sep [] = []"
| "intercalate sep [x] = x"
| "intercalate sep (x # y # ys) = x @ sep @ intercalate sep (y # ys)"

fun js_String :: "env \<Rightarrow> jsval \<Rightarrow> js_exn + string"
  and join_strings :: "env \<Rightarrow> jsval list \<Rightarrow> js_exn + string list" where
  "js_String e JUndef = Inr ''undefined''"
| "js_String e JNull = Inr ''null''"
| "js_String e (JBool b) = Inr (if b then ''true'' else ''false'')"
| "js_String e (JNum n) = Inr (numberToString e n)"
| "js_String e JNaN = Inr ''NaN''"
| "js_String e JInfinity = Inr ''Infinity''"
| "js_String e JNegInfinity = Inr ''-Infinity''"
| "js_String e (JStr s) = Inr s"
| "js_String e (JArr xs) =
     (case join_strings e xs of Inl x \<Rightarrow> Inl x | Inr ss \<Rightarrow> Inr (intercalate '','' ss))"
| "js_String e (JObj kvs) =
     (if map_of kvs ''toString'' \<noteq> None
      then Inl (JsError ''Cannot convert object to primitive value'')
      else Inr ''[object Object]'')"
| "join_strings e [] = Inr []"
| "join_strings e (x # xs) =
     (case (if x = JUndef \<or> x = JNull then Inr [] else js_String e x) of
        Inl err \<Rightarrow> Inl err
      | Inr s \<Rightarrow>
          (case join_strings e xs of Inl err \<Rightarrow> Inl err | Inr ss \<Rightarrow> Inr (s # ss)))"

text \<open>
  \<open>ToNumber(v)\<close>, as \<open>Math.min\<close> and \<open>>\<close> apply it. An array or object is first made
  primitive: \<open>valueOf\<close> never gives a primitive here, so the outcome is that of
  \<open>String\<close>, read as a number.
\<close>

fun to_number :: "env \<Rightarrow> jsval \<Rightarrow> js_exn + jsnumber" where
  "to_number e JUndef = Inr NotANumber"
| "to_number e JNull = Inr (Finite 0)"
| "to_number e (JBool b) = Inr (Finite (if b then 1 else 0))"
| "to_number e (JNum n) = Inr (Finite n)"
| "to_number e JNaN = Inr NotANumber"
| "to_number e JInfinity = Inr PosInfinity"
| "to_number e JNegInfinity = Inr NegInfinity"
| "to_number e (JStr s) = Inr (stringToNumber e s)"
| "to_number e (JArr xs) =
     (case js_String e (JArr xs) of Inl x \<Rightarrow> Inl x | Inr s \<Rightarrow> Inr (stringToNumber e s))"
| "to_number e (JObj kvs) =
     (case js_String e (JObj kvs) of Inl x \<Rightarrow> Inl x | Inr s \<Rightarrow> Inr NotANumber)"

text \<open>\<open>Math.min(v, b)\<close> with a finite numeric literal \<open>b\<close>\<close>

fun number_min :: "jsnumber \<Rightarrow> rat \<Rightarrow> jsval" where
  "number_min (Finite x) b = JNum (min x b)"
| "number_min NotANumber b = JNaN"
| "number_min PosInfinity b = JNum b"
| "number_min NegInfinity b = JNegInfinity"

definition Math_min :: "env \<Rightarrow> jsval \<Rightarrow> rat \<Rightarrow> js_exn + jsval" where
  "Math_min e v b = (case to_number e v of Inl x \<Rightarrow> Inl x | Inr n \<Rightarrow> Inr (number_min n b))"

text \<open>\<open>v > 0\<close>\<close>

fun positive :: "jsnumber \<Rightarrow> bool" where
  "positive (Finite x) = (0 < x)"
| "positive NotANumber = False"
| "positive PosInfinity = True"
| "positive NegInfinity = False"

definition greater_than_zero :: "env \<Rightarrow> jsval \<Rightarrow> js_exn + bool" where
  "greater_than_zero e v = (case to_number e v of Inl x \<Rightarrow> Inl x | Inr n \<Rightarrow> Inr (positive n))"

text \<open>
  \<open>s.toUpperCase()\<close>: on plain ASCII the letters a to z become A to Z and nothing else
  changes; any other string is left to the engine.
\<close>

definition upper_char :: "char \<Rightarrow> char" where
  "upper_char c =
     (case map_of (zip ''abcdefghijklmnopqrstuvwxyz'' ''ABCDEFGHIJKLMNOPQRSTUVWXYZ'') c of
        Some u \<Rightarrow> u
      | None \<Rightarrow> c)"

definition ascii :: "string \<Rightarrow> bool" where
  "ascii s = list_all (\<lambda>c. \<not> digit7 c) s"

definition toUpperCase :: "env \<Rightarrow> string \<Rightarrow> string" where
  "toUpperCase e s = (if ascii s then map upper_char s else upperCaseOther e s)"

text \<open>
  \<open>v.toUpperCase()\<close> on a truthy value: a string has the method; a number, boolean,
  array or object born from JSON has no such callable member, and the call throws a
  \<open>TypeError\<close>.
\<close>

definition call_toUpperCase :: "env \<Rightarrow> string \<Rightarrow> jsval \<Rightarrow> js_exn + jsval" where
  "call_toUpperCase e path v =
     (case v of JStr s \<Rightarrow> Inr (JStr (toUpperCase e s))
      | _ \<Rightarrow> Inl (JsError (path @ ''.toUpperCase is not a function'')))"

text \<open>\<open>JSON.stringify(v, null, 2)\<close>: undefined for an undefined \<open>v\<close>.\<close>

definition JSON_stringify :: "env \<Rightarrow> jsval \<Rightarrow> jsval" where
  "JSON_stringify e v = (if v = JUndef then JUndef else JStr (stringifyPretty e v))"

text \<open>The decimal digits of a status code, as a template literal renders it.\<close>

fun decimal :: "nat \<Rightarrow> string" where
  "decimal n =
     (if n < 10 then [''0123456789'' ! n]
      else decimal (n div 10) @ [''0123456789'' ! (n mod 10)])"

declare decimal.simps [simp del]

text \<open>
  \<open>error instanceof Error ? error.message : String(error)\<close>: the coercion of a value
  that is not an \<open>Error\<close> can itself throw.
\<close>

fun error_message :: "env \<Rightarrow> js_exn \<Rightarrow> js_exn + string" where
  "error_message e (JsError m) = Inr m"
| "error_message e (SuperOpsError m c r) = Inr m"
| "error_message e (NonError v) = js_String e v"

section \<open>client.ts: credentials, the cached client, one GraphQL operation\<close>

record SuperOpsCredentials =
  apiToken :: string
  subdomain :: string
  region :: "string option"

record SuperOpsClient =
  client_apiToken :: string
  client_subdomain :: string
  client_endpoint :: endpoint_value

text \<open>
  The state of client.ts is the cached client. The requests handed to \<open>fetch\<close> are
  recorded beside it, oldest first, so that what a handler sends can be stated.
\<close>

record net =
  cached_client :: "SuperOpsClient option"
  sent :: "http_request list"

definition object_prototype_names :: "string list" where
  "object_prototype_names =
     [''constructor'', ''__defineGetter__'', ''__defineSetter__'', ''hasOwnProperty'',
      ''__lookupGetter__'', ''__lookupSetter__'', ''isPrototypeOf'', ''propertyIsEnumerable'',
      ''toString'', ''valueOf'', ''__proto__'', ''toLocaleString'']"

definition API_ENDPOINTS :: "string \<Rightarrow> endpoint_value" where
  "API_ENDPOINTS r =
     (if r = ''us'' then Url ''https://api.superops.ai/msp''
      else if r = ''eu'' then Url ''https://euapi.superops.ai/msp''
      else if r \<in> set object_prototype_names then Inherited r
      else NoEndpoint)"

definition new_SuperOpsClient :: "SuperOpsCredentials \<Rightarrow> SuperOpsClient" where
  "new_SuperOpsClient credentials =
     \<lparr>client_apiToken = apiToken credentials,
      client_subdomain = subdomain credentials,
      client_endpoint = API_ENDPOINTS (case region credentials of None \<Rightarrow> ''us'' | Some r \<Rightarrow> r)\<rparr>"

text \<open>\<open>result.errors && result.errors.length > 0\<close>\<close>

definition errors_nonempty :: "env \<Rightarrow> jsval \<Rightarrow> js_exn + bool" where
  "errors_nonempty e result =
     (case member result ''errors'' of
        Inl x \<Rightarrow> Inl x
      | Inr errs \<Rightarrow>
          if \<not> truthy errs then Inr False
          else (case member errs ''length'' of
                  Inl x \<Rightarrow> Inl x
                | Inr len \<Rightarrow> greater_than_zero e len))"

text \<open>
  What the body of that \<open>if\<close> throws: \<open>new SuperOpsError(error.message,
  error.extensions?.code, error.extensions?.retryAfter)\<close> for \<open>error = result.errors[0]\<close>,
  or the \<open>TypeError\<close> of reading \<open>message\<close> from a null or undefined \<open>error\<close>, or of
  the \<open>Error\<close> constructor turning a \<open>message\<close> that is not undefined into a string.
\<close>

definition first_error :: "env \<Rightarrow> jsval \<Rightarrow> js_exn" where
  "first_error e result =
     (case member result ''errors'' of
        Inl x \<Rightarrow> x
      | Inr errs \<Rightarrow>
      (case member errs ''0'' of
        Inl x \<Rightarrow> x
      | Inr error \<Rightarrow>
      (case member error ''message'' of
        Inl x \<Rightarrow> x
      | Inr msg \<Rightarrow>
      (case member error ''extensions'' of
        Inl x \<Rightarrow> x
      | Inr ext \<Rightarrow>
      (case optional_member ext ''code'' of
        Inl x \<Rightarrow> x
      | Inr code \<Rightarrow>
      (case optional_member ext ''retryAfter'' of
        Inl x \<Rightarrow> x
      | Inr retryAfter \<Rightarrow>
      (case (if msg = JUndef then Inr [] else js_String e msg) of
        Inl x \<Rightarrow> x
      | Inr m \<Rightarrow> SuperOpsError m code retryAfter)))))))"

definition query ::
  "env \<Rightarrow> SuperOpsClient \<Rightarrow> document \<Rightarrow> jsval \<Rightarrow> net \<Rightarrow> (js_exn + jsval) \<times> net" where
  "query e c q variables n =
     (let req = \<lparr>url = client_endpoint c,
                  authorization = ''Bearer '' @ client_apiToken c,
                  customerSubDomain = client_subdomain c,
                  body_query = q,
                  body_variables = variables\<rparr>;
          n' = n\<lparr>sent := sent n @ [req]\<rparr>
      in case fetch e req of
           FetchRejected x \<Rightarrow> (Inl x, n')
         | Responded response \<Rightarrow>
             if \<not> ok response
             then (Inl (JsError (''HTTP error: '' @ decimal (status response) @ '' ''
                                  @ statusText response)), n')
             else (case json response of
                     JsonRejected x \<Rightarrow> (Inl x, n')
                   | JsonParsed result \<Rightarrow>
                       (case errors_nonempty e result of
                          Inl x \<Rightarrow> (Inl x, n')
                        | Inr has_errors \<Rightarrow>
                            if has_errors then (Inl (first_error e result), n')
                            else (case member result ''data'' of
                                    Inl x \<Rightarrow> (Inl x, n')
                                  | Inr d \<Rightarrow>
                                      if \<not> truthy d
                                      then (Inl (JsError ''No data returned from GraphQL query''), n')
                                      else (Inr d, n')))))"

definition mutate ::
  "env \<Rightarrow> SuperOpsClient \<Rightarrow> document \<Rightarrow> jsval \<Rightarrow> net \<Rightarrow> (js_exn + jsval) \<times> net" where
  "mutate e c mutation variables n = query e c mutation variables n"

definition getCredentials :: "env \<Rightarrow> SuperOpsCredentials option" where
  "getCredentials e =
     (case (SUPEROPS_API_TOKEN e, SUPEROPS_SUBDOMAIN e) of
        (Some t, Some s) \<Rightarrow>
          if t = [] \<or> s = [] then None
          else Some \<lparr>apiToken = t, subdomain = s, region = SUPEROPS_REGION e\<rparr>
      | _ \<Rightarrow> None)"

definition getClient :: "env \<Rightarrow> net \<Rightarrow> (js_exn + SuperOpsClient) \<times> net" where
  "getClient e n =
     (case cached_client n of
        Some c \<Rightarrow> (Inr c, n)
      | None \<Rightarrow>
          (case getCredentials e of
             None \<Rightarrow>
               (Inl (JsError (''SuperOps credentials not configured. Set SUPEROPS_API_TOKEN ''
                              @ ''and SUPEROPS_SUBDOMAIN environment variables.'')), n)
           | Some creds \<Rightarrow>
               (let c = new_SuperOpsClient creds in (Inr c, n\<lparr>cached_client := Some c\<rparr>))))"

definition resetClient :: "net \<Rightarrow> net" where
  "resetClient n = n\<lparr>cached_client := None\<rparr>"

section \<open>types.ts: tool definitions and tool results\<close>

text \<open>
  A tool definition keeps its name and description; its \<open>inputSchema\<close>, a constant that
  no handler reads, is left out. A result carries \<open>isError\<close> only when it is an error.
\<close>

record ToolDefinition =
  tool_name :: string
  tool_description :: string

record content_block =
  content_type :: string
  content_text :: jsval

record tool_result =
  content :: "content_block list"
  isError :: "bool option"

text \<open>\<open>{content: [{type: "text", text: t}]}\<close> and the same with \<open>isError: true\<close>\<close>

definition text_result :: "jsval \<Rightarrow> tool_result" where
  "text_result t = \<lparr>content = [\<lparr>content_type = ''text'', content_text = t\<rparr>], isError = None\<rparr>"

definition error_result :: "string \<Rightarrow> tool_result" where
  "error_result s = \<lparr>content = [\<lparr>content_type = ''text'', content_text = JStr s\<rparr>], isError = Some True\<rparr>"

text \<open>
  The tail every case of a handler shares: await the client, and on fulfilment return
  \<open>JSON.stringify(response.field, null, 2)\<close> as text; a rejection is thrown on.
\<close>

definition respond_with ::
  "env \<Rightarrow> string \<Rightarrow> (js_exn + jsval) \<times> net \<Rightarrow> (js_exn + tool_result) \<times> net" where
  "respond_with e field r =
     (case r of
        (Inl x, n') \<Rightarrow> (Inl x, n')
      | (Inr response, n') \<Rightarrow>
          (Inr (text_result (JSON_stringify e (getprop response field))), n'))"

text \<open>
  The \<open>catch\<close> block every \<open>handleCall\<close> ends with. \<open>String(error)\<close> runs inside
  it, outside any \<open>try\<close>: when it throws, \<open>handleCall\<close> throws.
\<close>

definition catch_block ::
  "env \<Rightarrow> (js_exn + tool_result) \<times> net \<Rightarrow> (js_exn + tool_result) \<times> net" where
  "catch_block e r =
     (case r of
        (Inl error, n') \<Rightarrow>
          (case error_message e error of
             Inl x \<Rightarrow> (Inl x, n')
           | Inr message \<Rightarrow> (Inr (error_result (''Error: '' @ message)), n'))
      | (Inr res, n') \<Rightarrow> (Inr res, n'))"

text \<open>
  A case whose variables are built first: building them can throw (\<open>Math.min\<close>,
  \<open>toUpperCase\<close>), and then nothing is sent.
\<close>

definition with_variables ::
  "js_exn + jsobject \<Rightarrow> (jsval \<Rightarrow> (js_exn + tool_result) \<times> net) \<Rightarrow> net
     \<Rightarrow> (js_exn + tool_result) \<times> net" where
  "with_variables built send n =
     (case built of
        Inl x \<Rightarrow> (Inl x, n)
      | Inr input \<Rightarrow> send (JObj [(''input'', JObj input)]))"

text \<open>\<open>if (c) obj.k = v\<close>\<close>

definition assign_if :: "jsval \<Rightarrow> string \<Rightarrow> jsval \<Rightarrow> jsobject \<Rightarrow> jsobject" where
  "assign_if c k v obj = (if truthy c then AList.update k v obj else obj)"

section \<open>domains/clients.ts\<close>

definition clients_tools :: "ToolDefinition list" where
  "clients_tools =
     [\<lparr>tool_name = ''superops_clients_list'',
       tool_description = ''List clients (accounts) in SuperOps.ai. Can filter by status, stage, or paginate through results.''\<rparr>,
      \<lparr>tool_name = ''superops_clients_get'',
       tool_description = ''Get detailed information for a specific client by their account ID.''\<rparr>,
      \<lparr>tool_name = ''superops_clients_search'',
       tool_description = ''Search for clients by name or email domain. Returns matching clients with basic information.''\<rparr>]"

definition clients_list_input :: "env \<Rightarrow> jsobject \<Rightarrow> js_exn + jsobject" where
  "clients_list_input e params =
     (let filter = [];
          filter = assign_if (get params ''status'') ''status'' (get params ''status'') filter;
          filter = assign_if (get params ''stage'') ''stage'' (get params ''stage'') filter
      in case Math_min e (nullish (get params ''max'') (JNum 50)) 500 of
           Inl x \<Rightarrow> Inl x
         | Inr first \<Rightarrow>
             Inr ([(''first'', first)]
                  @ spread_and (get params ''cursor'') [(''after'', get params ''cursor'')]
                  @ spread_and (JBool (length filter > 0)) [(''filter'', JObj filter)]
                  @ [(''orderBy'', JObj [(''field'', JStr ''name''), (''direction'', JStr ''ASC'')])]))"

definition clients_search_input :: "env \<Rightarrow> jsobject \<Rightarrow> js_exn + jsobject" where
  "clients_search_input e params =
     (case Math_min e (nullish (get params ''max'') (JNum 20)) 100 of
        Inl x \<Rightarrow> Inl x
      | Inr first \<Rightarrow>
          Inr [(''first'', first),
               (''filter'', JObj [(''or'', JArr
                  [JObj [(''name'', JObj [(''contains'', get params ''query'')])],
                   JObj [(''emailDomains'', JObj [(''contains'', get params ''query'')])]])])])"

definition clients_switch ::
  "env \<Rightarrow> SuperOpsClient \<Rightarrow> string \<Rightarrow> jsobject \<Rightarrow> net \<Rightarrow> (js_exn + tool_result) \<times> net" where
  "clients_switch e client name args n =
     (if name = ''superops_clients_list'' then
        with_variables (clients_list_input e args)
          (\<lambda>variables. respond_with e ''getClientList'' (query e client LIST_CLIENTS_QUERY variables n)) n
      else if name = ''superops_clients_get'' then
        respond_with e ''getClient''
          (query e client GET_CLIENT_QUERY
             (JObj [(''input'', JObj [(''accountId'', get args ''accountId'')])]) n)
      else if name = ''superops_clients_search'' then
        with_variables (clients_search_input e args)
          (\<lambda>variables. respond_with e ''getClientList'' (query e client SEARCH_CLIENTS_QUERY variables n)) n
      else (Inr (error_result (''Unknown clients tool: '' @ name)), n))"

definition clients_handleCall ::
  "env \<Rightarrow> string \<Rightarrow> jsobject \<Rightarrow> net \<Rightarrow> (js_exn + tool_result) \<times> net" where
  "clients_handleCall e name args n =
     (case getClient e n of
        (Inl x, n') \<Rightarrow> (Inl x, n')
      | (Inr client, n') \<Rightarrow> catch_block e (clients_switch e client name args n'))"

section \<open>domains/tickets.ts\<close>

definition tickets_tools :: "ToolDefinition list" where
  "tickets_tools =
     [\<lparr>tool_name = ''superops_tickets_list'',
       tool_description = ''List tickets in SuperOps.ai. Can filter by status, priority, client, or assignee.''\<rparr>,
      \<lparr>tool_name = ''superops_tickets_get'',
       tool_description = ''Get detailed information for a specific ticket by its ID.''\<rparr>,
      \<lparr>tool_name = ''superops_tickets_create'',
       tool_description = ''Create a new ticket in SuperOps.ai.''\<rparr>,
      \<lparr>tool_name = ''superops_tickets_update'',
       tool_description = ''Update an existing ticket - change status, priority, assignment, or add resolution.''\<rparr>,
      \<lparr>tool_name = ''superops_tickets_add_note'',
       tool_description = ''Add a note to a ticket. Can be internal or public (visible to client).''\<rparr>,
      \<lparr>tool_name = ''superops_tickets_log_time'',
       tool_description = ''Log time spent on a ticket.''\<rparr>]"

definition tickets_list_filter :: "jsobject \<Rightarrow> jsobject" where
  "tickets_list_filter params =
     (let filter = [];
          filter = assign_if (get params ''status'') ''status'' (get params ''status'') filter;
          filter = assign_if (get params ''priority'') ''priority'' (get params ''priority'') filter;
          filter = assign_if (get params ''clientId'') ''client''
                     (JObj [(''accountId'', get params ''clientId'')]) filter;
          filter = assign_if (get params ''assigneeId'') ''assignee''
                     (JObj [(''id'', get params ''assigneeId'')]) filter;
          filter = assign_if (get params ''unassigned'') ''assignee'' JNull filter
      in filter)"

definition tickets_list_input :: "env \<Rightarrow> jsobject \<Rightarrow> js_exn + jsobject" where
  "tickets_list_input e params =
     (let filter = tickets_list_filter params
      in case Math_min e (nullish (get params ''max'') (JNum 50)) 500 of
           Inl x \<Rightarrow> Inl x
         | Inr first \<Rightarrow>
             Inr ([(''first'', first)]
                  @ spread_and (get params ''cursor'') [(''after'', get params ''cursor'')]
                  @ spread_and (JBool (length filter > 0)) [(''filter'', JObj filter)]
                  @ [(''orderBy'', JObj [(''field'', JStr ''createdTime''), (''direction'', JStr ''DESC'')])]))"

text \<open>
  The two mutation inputs. \<open>params.priority.toUpperCase()\<close> runs only under
  \<open>if (params.priority)\<close>, and throws when the truthy value is not a string.
\<close>

definition tickets_create_input :: "env \<Rightarrow> jsobject \<Rightarrow> js_exn + jsobject" where
  "tickets_create_input e params =
     (let input = [(''subject'', get params ''subject''),
                   (''client'', JObj [(''accountId'', get params ''clientId'')])];
          input = assign_if (get params ''description'') ''description''
                    (get params ''description'') input
      in case (if truthy (get params ''priority'')
               then call_toUpperCase e ''params.priority'' (get params ''priority'')
               else Inr JUndef) of
           Inl x \<Rightarrow> Inl x
         | Inr upper \<Rightarrow>
             (let input = assign_if (get params ''priority'') ''priority'' upper input;
                  input = assign_if (get params ''requesterEmail'') ''requester''
                            (JObj [(''email'', get params ''requesterEmail'')]) input;
                  input = assign_if (get params ''techGroupName'') ''techGroup''
                            (JObj [(''name'', get params ''techGroupName'')]) input;
                  input = assign_if (get params ''categoryName'') ''category''
                            (JObj [(''name'', get params ''categoryName'')]) input
              in Inr input))"

definition tickets_update_input :: "env \<Rightarrow> jsobject \<Rightarrow> js_exn + jsobject" where
  "tickets_update_input e params =
     (let input = [(''ticketId'', get params ''ticketId'')];
          input = assign_if (get params ''status'') ''status'' (get params ''status'') input
      in case (if truthy (get params ''priority'')
               then call_toUpperCase e ''params.priority'' (get params ''priority'')
               else Inr JUndef) of
           Inl x \<Rightarrow> Inl x
         | Inr upper \<Rightarrow>
             (let input = assign_if (get params ''priority'') ''priority'' upper input;
                  input = assign_if (get params ''assigneeId'') ''assignee''
                            (JObj [(''id'', get params ''assigneeId'')]) input;
                  input = assign_if (get params ''techGroupName'') ''techGroup''
                            (JObj [(''name'', get params ''techGroupName'')]) input;
                  input = assign_if (get params ''resolution'') ''resolution''
                            (get params ''resolution'') input
              in Inr input))"

definition tickets_switch ::
  "env \<Rightarrow> SuperOpsClient \<Rightarrow> string \<Rightarrow> jsobject \<Rightarrow> net \<Rightarrow> (js_exn + tool_result) \<times> net" where
  "tickets_switch e client name args n =
     (if name = ''superops_tickets_list'' then
        with_variables (tickets_list_input e args)
          (\<lambda>variables. respond_with e ''getTicketList'' (query e client LIST_TICKETS_QUERY variables n)) n
      else if name = ''superops_tickets_get'' then
        respond_with e ''getTicket''
          (query e client GET_TICKET_QUERY
             (JObj [(''input'', JObj [(''ticketId'', get args ''ticketId'')])]) n)
      else if name = ''superops_tickets_create'' then
        (case tickets_create_input e args of
           Inl x \<Rightarrow> (Inl x, n)
         | Inr input \<Rightarrow>
             respond_with e ''createTicket''
               (mutate e client CREATE_TICKET_MUTATION (JObj [(''input'', JObj input)]) n))
      else if name = ''superops_tickets_update'' then
        (case tickets_update_input e args of
           Inl x \<Rightarrow> (Inl x, n)
         | Inr input \<Rightarrow>
             respond_with e ''updateTicket''
               (mutate e client UPDATE_TICKET_MUTATION (JObj [(''input'', JObj input)]) n))
      else if name = ''superops_tickets_add_note'' then
        respond_with e ''addTicketNote''
          (mutate e client ADD_TICKET_NOTE_MUTATION
             (JObj [(''input'', JObj
                [(''ticketId'', get args ''ticketId''),
                 (''content'', get args ''content''),
                 (''isPublic'', nullish (get args ''isPublic'') (JBool False))])]) n)
      else if name = ''superops_tickets_log_time'' then
        respond_with e ''addTicketTimeEntry''
          (mutate e client ADD_TIME_ENTRY_MUTATION
             (JObj [(''input'', JObj
                [(''ticketId'', get args ''ticketId''),
                 (''duration'', get args ''duration''),
                 (''description'', get args ''description''),
                 (''workType'', get args ''workType''),
                 (''billable'', nullish (get args ''billable'') (JBool True))])]) n)
      else (Inr (error_result (''Unknown tickets tool: '' @ name)), n))"

definition tickets_handleCall ::
  "env \<Rightarrow> string \<Rightarrow> jsobject \<Rightarrow> net \<Rightarrow> (js_exn + tool_result) \<times> net" where
  "tickets_handleCall e name args n =
     (case getClient e n of
        (Inl x, n') \<Rightarrow> (Inl x, n')
      | (Inr client, n') \<Rightarrow> catch_block e (tickets_switch e client name args n'))"

section \<open>domains/assets.ts\<close>

definition assets_tools :: "ToolDefinition list" where
  "assets_tools =
     [\<lparr>tool_name = ''superops_assets_list'',
       tool_description = ''List assets (endpoints) in SuperOps.ai RMM. Can filter by status, platform, or client.''\<rparr>,
      \<lparr>tool_name = ''superops_assets_get'',
       tool_description = ''Get detailed information for a specific asset including hardware, OS, and network details.''\<rparr>,
      \<lparr>tool_name = ''superops_assets_software'',
       tool_description = ''Get the software inventory for a specific asset.''\<rparr>,
      \<lparr>tool_name = ''superops_assets_patches'',
       tool_description = ''Get patch status and pending patches for a specific asset.''\<rparr>]"

definition assets_list_input :: "env \<Rightarrow> jsobject \<Rightarrow> js_exn + jsobject" where
  "assets_list_input e params =
     (let filter = [];
          filter = assign_if (get params ''status'') ''status'' (get params ''status'') filter;
          filter = assign_if (get params ''platform'') ''platform'' (get params ''platform'') filter;
          filter = assign_if (get params ''clientId'') ''client''
                     (JObj [(''accountId'', get params ''clientId'')]) filter
      in case Math_min e (nullish (get params ''max'') (JNum 100)) 500 of
           Inl x \<Rightarrow> Inl x
         | Inr first \<Rightarrow>
             Inr ([(''first'', first)]
                  @ spread_and (get params ''cursor'') [(''after'', get params ''cursor'')]
                  @ spread_and (JBool (length filter > 0)) [(''filter'', JObj filter)]
                  @ [(''orderBy'', JObj [(''field'', JStr ''name''), (''direction'', JStr ''ASC'')])]))"

definition assets_software_input :: "env \<Rightarrow> jsobject \<Rightarrow> js_exn + jsobject" where
  "assets_software_input e params =
     (let filter = [];
          filter = assign_if (get params ''search'') ''name''
                     (JObj [(''contains'', get params ''search'')]) filter
      in case Math_min e (nullish (get params ''max'') (JNum 100)) 500 of
           Inl x \<Rightarrow> Inl x
         | Inr first \<Rightarrow>
             Inr ([(''assetId'', get params ''assetId''), (''first'', first)]
                  @ spread_and (JBool (length filter > 0)) [(''filter'', JObj filter)]))"

definition assets_patches_input :: "jsobject \<Rightarrow> jsobject" where
  "assets_patches_input params =
     (let filter = [];
          filter = assign_if (get params ''status'') ''status'' (get params ''status'') filter;
          filter = assign_if (get params ''severity'') ''severity'' (get params ''severity'') filter
      in [(''assetId'', get params ''assetId'')]
         @ spread_and (JBool (length filter > 0)) [(''filter'', JObj filter)])"

definition assets_switch ::
  "env \<Rightarrow> SuperOpsClient \<Rightarrow> string \<Rightarrow> jsobject \<Rightarrow> net \<Rightarrow> (js_exn + tool_result) \<times> net" where
  "assets_switch e client name args n =
     (if name = ''superops_assets_list'' then
        with_variables (assets_list_input e args)
          (\<lambda>variables. respond_with e ''getAssetList'' (query e client LIST_ASSETS_QUERY variables n)) n
      else if name = ''superops_assets_get'' then
        respond_with e ''getAsset''
          (query e client GET_ASSET_QUERY
             (JObj [(''input'', JObj [(''assetId'', get args ''assetId'')])]) n)
      else if name = ''superops_assets_software'' then
        with_variables (assets_software_input e args)
          (\<lambda>variables. respond_with e ''getAssetSoftwareList'' (query e client GET_ASSET_SOFTWARE_QUERY variables n)) n
      else if name = ''superops_assets_patches'' then
        respond_with e ''getAssetPatchDetails''
          (query e client GET_ASSET_PATCHES_QUERY
             (JObj [(''input'', JObj (assets_patches_input args))]) n)
      else (Inr (error_result (''Unknown assets tool: '' @ name)), n))"

definition assets_handleCall ::
  "env \<Rightarrow> string \<Rightarrow> jsobject \<Rightarrow> net \<Rightarrow> (js_exn + tool_result) \<times> net" where
  "assets_handleCall e name args n =
     (case getClient e n of
        (Inl x, n') \<Rightarrow> (Inl x, n')
      | (Inr client, n') \<Rightarrow> catch_block e (assets_switch e client name args n'))"

section \<open>domains/technicians.ts\<close>

definition technicians_tools :: "ToolDefinition list" where
  "technicians_tools =
     [\<lparr>tool_name = ''superops_technicians_list'',
       tool_description = ''List technicians (agents) in SuperOps.ai. Can filter by active status or team.''\<rparr>,
      \<lparr>tool_name = ''superops_technicians_get'',
       tool_description = ''Get detailed information for a specific technician by their ID.''\<rparr>,
      \<lparr>tool_name = ''superops_technicians_groups'',
       tool_description = ''List technician groups/teams in SuperOps.ai.''\<rparr>]"

text \<open>\<open>if (params.activeOnly !== false) filter.isActive = true\<close>: strict inequality.\<close>

definition technicians_list_filter :: "jsobject \<Rightarrow> jsobject" where
  "technicians_list_filter params =
     (let filter = [];
          filter = (if get params ''activeOnly'' \<noteq> JBool False
                    then AList.update ''isActive'' (JBool True) filter else filter);
          filter = assign_if (get params ''teamId'') ''teams''
                     (JObj [(''id'', get params ''teamId'')]) filter
      in filter)"

definition technicians_list_input :: "env \<Rightarrow> jsobject \<Rightarrow> js_exn + jsobject" where
  "technicians_list_input e params =
     (let filter = technicians_list_filter params
      in case Math_min e (nullish (get params ''max'') (JNum 50)) 500 of
           Inl x \<Rightarrow> Inl x
         | Inr first \<Rightarrow>
             Inr ([(''first'', first)]
                  @ spread_and (get params ''cursor'') [(''after'', get params ''cursor'')]
                  @ spread_and (JBool (length filter > 0)) [(''filter'', JObj filter)]
                  @ [(''orderBy'', JObj [(''field'', JStr ''name''), (''direction'', JStr ''ASC'')])]))"

definition technicians_groups_input :: "env \<Rightarrow> jsobject \<Rightarrow> js_exn + jsobject" where
  "technicians_groups_input e params =
     (case Math_min e (nullish (get params ''max'') (JNum 50)) 500 of
        Inl x \<Rightarrow> Inl x
      | Inr first \<Rightarrow> Inr [(''first'', first)])"

definition technicians_switch ::
  "env \<Rightarrow> SuperOpsClient \<Rightarrow> string \<Rightarrow> jsobject \<Rightarrow> net \<Rightarrow> (js_exn + tool_result) \<times> net" where
  "technicians_switch e client name args n =
     (if name = ''superops_technicians_list'' then
        with_variables (technicians_list_input e args)
          (\<lambda>variables. respond_with e ''getTechnicianList'' (query e client LIST_TECHNICIANS_QUERY variables n)) n
      else if name = ''superops_technicians_get'' then
        respond_with e ''getTechnician''
          (query e client GET_TECHNICIAN_QUERY
             (JObj [(''input'', JObj [(''id'', get args ''technicianId'')])]) n)
      else if name = ''superops_technicians_groups'' then
        with_variables (technicians_groups_input e args)
          (\<lambda>variables. respond_with e ''getTechGroupList''
             (query e client LIST_TECH_GROUPS_QUERY variables n)) n
      else (Inr (error_result (''Unknown technicians tool: '' @ name)), n))"

definition technicians_handleCall ::
  "env \<Rightarrow> string \<Rightarrow> jsobject \<Rightarrow> net \<Rightarrow> (js_exn + tool_result) \<times> net" where
  "technicians_handleCall e name args n =
     (case getClient e n of
        (Inl x, n') \<Rightarrow> (Inl x, n')
      | (Inr client, n') \<Rightarrow> catch_block e (technicians_switch e client name args n'))"

section \<open>domains/custom.ts\<close>

definition custom_tools :: "ToolDefinition list" where
  "custom_tools =
     [\<lparr>tool_name = ''superops_custom_query'',
       tool_description = ''Run a custom GraphQL query against the SuperOps.ai API. For advanced use cases not covered by standard tools.''\<rparr>,
      \<lparr>tool_name = ''superops_custom_mutation'',
       tool_description = ''Run a custom GraphQL mutation against the SuperOps.ai API. For advanced write operations not covered by standard tools.''\<rparr>]"

text \<open>Here the whole payload is serialised, not one field of it.\<close>

definition respond_whole ::
  "env \<Rightarrow> (js_exn + jsval) \<times> net \<Rightarrow> (js_exn + tool_result) \<times> net" where
  "respond_whole e r =
     (case r of
        (Inl x, n') \<Rightarrow> (Inl x, n')
      | (Inr response, n') \<Rightarrow> (Inr (text_result (JSON_stringify e response)), n'))"

definition custom_switch ::
  "env \<Rightarrow> SuperOpsClient \<Rightarrow> string \<Rightarrow> jsobject \<Rightarrow> net \<Rightarrow> (js_exn + tool_result) \<times> net" where
  "custom_switch e client name args n =
     (if name = ''superops_custom_query'' then
        respond_whole e
          (query e client (Supplied (get args ''query'')) (get args ''variables'') n)
      else if name = ''superops_custom_mutation'' then
        respond_whole e
          (mutate e client (Supplied (get args ''mutation'')) (get args ''variables'') n)
      else (Inr (error_result (''Unknown custom tool: '' @ name)), n))"

definition custom_handleCall ::
  "env \<Rightarrow> string \<Rightarrow> jsobject \<Rightarrow> net \<Rightarrow> (js_exn + tool_result) \<times> net" where
  "custom_handleCall e name args n =
     (case getClient e n of
        (Inl x, n') \<Rightarrow> (Inl x, n')
      | (Inr client, n') \<Rightarrow> catch_block e (custom_switch e client name args n'))"

section \<open>index.ts: the active domain, lazy loading, listing and calling tools\<close>

text \<open>
  \<open>Domain\<close> is the closed union of five string literals; \<open>domain_string\<close> gives the
  literal back. A loaded module is its tool catalog and its \<open>handleCall\<close>.
\<close>

datatype Domain = Clients | Tickets | Assets | Technicians | Custom

fun domain_string :: "Domain \<Rightarrow> string" where
  "domain_string Clients = ''clients''"
| "domain_string Tickets = ''tickets''"
| "domain_string Assets = ''assets''"
| "domain_string Technicians = ''technicians''"
| "domain_string Custom = ''custom''"

record DomainTools =
  tools :: "ToolDefinition list"
  handleCall :: "env \<Rightarrow> string \<Rightarrow> jsobject \<Rightarrow> net \<Rightarrow> (js_exn + tool_result) \<times> net"

definition getClientsTools :: DomainTools where
  "getClientsTools = \<lparr>tools = clients_tools, handleCall = clients_handleCall\<rparr>"

definition getTicketsTools :: DomainTools where
  "getTicketsTools = \<lparr>tools = tickets_tools, handleCall = tickets_handleCall\<rparr>"

definition getAssetsTools :: DomainTools where
  "getAssetsTools = \<lparr>tools = assets_tools, handleCall = assets_handleCall\<rparr>"

definition getTechniciansTools :: DomainTools where
  "getTechniciansTools = \<lparr>tools = technicians_tools, handleCall = technicians_handleCall\<rparr>"

definition getCustomTools :: DomainTools where
  "getCustomTools = \<lparr>tools = custom_tools, handleCall = custom_handleCall\<rparr>"

text \<open>
  The process-wide state: \<open>currentDomain\<close> (none in navigation mode), the cache of
  loaded modules, and the state of client.ts.
\<close>

record server_state =
  currentDomain :: "Domain option"
  domainCache :: "Domain \<Rightarrow> DomainTools option"
  client_module :: net

definition initial_state :: server_state where
  "initial_state =
     \<lparr>currentDomain = None,
      domainCache = (\<lambda>d. None),
      client_module = \<lparr>cached_client = None, sent = []\<rparr>\<rparr>"

text \<open>The \<open>switch\<close> of \<open>loadDomain\<close>; its default case is excluded by the type.\<close>

fun import_domain :: "Domain \<Rightarrow> DomainTools" where
  "import_domain Clients = getClientsTools"
| "import_domain Tickets = getTicketsTools"
| "import_domain Assets = getAssetsTools"
| "import_domain Technicians = getTechniciansTools"
| "import_domain Custom = getCustomTools"

definition loadDomain ::
  "Domain \<Rightarrow> (Domain \<Rightarrow> DomainTools option) \<Rightarrow> DomainTools \<times> (Domain \<Rightarrow> DomainTools option)" where
  "loadDomain domain cache =
     (case cache domain of
        Some cached \<Rightarrow> (cached, cache)
      | None \<Rightarrow> (let t = import_domain domain in (t, cache(domain \<mapsto> t))))"

definition navigationTool :: ToolDefinition where
  "navigationTool =
     \<lparr>tool_name = ''superops_navigate'',
      tool_description = ''Navigate to a SuperOps.ai domain to access its tools. Available domains: clients (accounts/companies), tickets (service desk), assets (endpoints/devices), technicians (agents/teams), custom (advanced GraphQL queries).''\<rparr>"

definition backTool :: ToolDefinition where
  "backTool =
     \<lparr>tool_name = ''superops_back'',
      tool_description = ''Return to the main navigation menu to select a different domain.''\<rparr>"

definition testConnectionTool :: ToolDefinition where
  "testConnectionTool =
     \<lparr>tool_name = ''superops_test_connection'',
      tool_description = ''Test the connection to SuperOps.ai API using configured credentials.''\<rparr>"

subsection \<open>The ListTools handler\<close>

definition list_tools :: "server_state \<Rightarrow> ToolDefinition list \<times> server_state" where
  "list_tools s =
     (case currentDomain s of
        None \<Rightarrow> ([testConnectionTool] @ [navigationTool], s)
      | Some d \<Rightarrow>
          (let (domainTools, cache') = loadDomain d (domainCache s)
           in ([testConnectionTool] @ [backTool] @ tools domainTools,
               s\<lparr>domainCache := cache'\<rparr>)))"

subsection \<open>The CallTool handler\<close>

definition nl :: string where
  "nl = [CHR 0x0A]"

definition no_credentials_text :: string where
  "no_credentials_text =
     ''Error: No API credentials configured. Please set SUPEROPS_API_TOKEN and SUPEROPS_SUBDOMAIN environment variables.''"

definition validDomains :: "Domain list" where
  "validDomains = [Clients, Tickets, Assets, Technicians, Custom]"

definition allDomains :: "Domain list" where
  "allDomains = [Clients, Tickets, Assets, Technicians, Custom]"

text \<open>\<open>args ?? {}\<close>\<close>

definition args_or_empty :: "jsobject option \<Rightarrow> jsobject" where
  "args_or_empty args = (case args of None \<Rightarrow> [] | Some a \<Rightarrow> a)"

text \<open>\<open>domainTools.tools.some((t) => t.name === name)\<close>\<close>

definition has_tool :: "DomainTools \<Rightarrow> string \<Rightarrow> bool" where
  "has_tool domainTools name = list_ex (\<lambda>t. tool_name t = name) (tools domainTools)"

definition handle_test_connection ::
  "env \<Rightarrow> server_state \<Rightarrow> (js_exn + tool_result) \<times> server_state" where
  "handle_test_connection e s =
     (case getCredentials e of
        None \<Rightarrow> (Inr (error_result no_credentials_text), s)
      | Some creds \<Rightarrow>
          (let (clientsTools, cache') = loadDomain Clients (domainCache s);
               (r, n') = handleCall clientsTools e ''superops_clients_list''
                           [(''max'', JNum 1)] (client_module s);
               s' = s\<lparr>domainCache := cache', client_module := n'\<rparr>
           in case r of
                Inl error \<Rightarrow>
                  (case error_message e error of
                     Inl x \<Rightarrow> (Inl x, s')
                   | Inr message \<Rightarrow>
                       (Inr (error_result (''Connection test failed: '' @ message)), s'))
              | Inr result \<Rightarrow>
                  if isError result = Some True then (Inr result, s')
                  else (Inr (text_result (JStr
                          (''Connection successful!'' @ nl @ nl
                           @ ''Credentials configured for:'' @ nl
                           @ ''- Subdomain: '' @ subdomain creds @ nl
                           @ ''- Region: ''
                           @ (case region creds of None \<Rightarrow> ''us'' | Some r \<Rightarrow> r) @ nl @ nl
                           @ ''API is responding correctly.''))), s')))"

text \<open>
  \<open>!domain || !validDomains.includes(domain)\<close>, then the cast \<open>domain as Domain\<close>:
  \<open>includes\<close> compares with strict equality, so only the five strings pass.
\<close>

definition handle_navigate ::
  "jsobject option \<Rightarrow> server_state \<Rightarrow> (js_exn + tool_result) \<times> server_state" where
  "handle_navigate args s =
     (let domain = get (args_or_empty args) ''domain''
      in case (if \<not> truthy domain then None
               else find (\<lambda>d. JStr (domain_string d) = domain) validDomains) of
           None \<Rightarrow>
             (Inr (error_result (''Invalid domain. Please choose from: ''
                     @ intercalate '', '' (map domain_string validDomains))), s)
         | Some d \<Rightarrow>
             (let (domainTools, cache') = loadDomain d (domainCache s)
              in (Inr (text_result (JStr
                    (''Navigated to '' @ domain_string d @ '' domain. Available tools:'' @ nl @ nl
                     @ intercalate nl
                         (map (\<lambda>t. ''- '' @ tool_name t @ '': '' @ tool_description t)
                            (tools domainTools))
                     @ nl @ nl @ ''Use superops_back to return to the main menu.''))),
                  s\<lparr>currentDomain := Some d, domainCache := cache'\<rparr>)))"

definition handle_back :: "server_state \<Rightarrow> (js_exn + tool_result) \<times> server_state" where
  "handle_back s =
     (Inr (text_result (JStr
        (''Returned to main navigation. Use superops_navigate to select a domain:'' @ nl @ nl
         @ ''- clients: Manage client accounts and contacts'' @ nl
         @ ''- tickets: Service desk and ticket management'' @ nl
         @ ''- assets: Endpoint inventory and RMM'' @ nl
         @ ''- technicians: Agent and team management'' @ nl
         @ ''- custom: Advanced GraphQL queries''))),
      s\<lparr>currentDomain := None\<rparr>)"

text \<open>The loop over \<open>allDomains\<close>: load each in turn, stop at the first that has the tool.\<close>

fun find_tool_domain ::
  "string \<Rightarrow> Domain list \<Rightarrow> (Domain \<Rightarrow> DomainTools option)
     \<Rightarrow> (Domain \<times> DomainTools) option \<times> (Domain \<Rightarrow> DomainTools option)" where
  "find_tool_domain name [] cache = (None, cache)"
| "find_tool_domain name (domain # rest) cache =
     (let (domainTools, cache') = loadDomain domain cache
      in if has_tool domainTools name then (Some (domain, domainTools), cache')
         else find_tool_domain name rest cache')"

text \<open>
  A domain call after the credential check: first the active domain, when there is one
  and the tool belongs to it; otherwise the search through all domains.
\<close>

definition handle_domain_call ::
  "env \<Rightarrow> string \<Rightarrow> jsobject option \<Rightarrow> server_state \<Rightarrow> (js_exn + tool_result) \<times> server_state" where
  "handle_domain_call e name args s =
     (case (case currentDomain s of
              None \<Rightarrow> (None, domainCache s)
            | Some cd \<Rightarrow>
                (let (domainTools, cache') = loadDomain cd (domainCache s)
                 in (if has_tool domainTools name then Some domainTools else None, cache'))) of
        (Some domainTools, cache') \<Rightarrow>
          (let (r, n') = handleCall domainTools e name (args_or_empty args) (client_module s)
           in (r, s\<lparr>domainCache := cache', client_module := n'\<rparr>))
      | (None, cache') \<Rightarrow>
          (case find_tool_domain name allDomains cache' of
             (Some (domain, domainTools), cache'') \<Rightarrow>
               (let (r, n') = handleCall domainTools e name (args_or_empty args) (client_module s)
                in (r, s\<lparr>currentDomain := Some domain, domainCache := cache'',
                          client_module := n'\<rparr>))
           | (None, cache'') \<Rightarrow>
               (Inr (error_result (''Unknown tool: '' @ name
                       @ ''. Use superops_navigate to explore available tools.'')),
                s\<lparr>domainCache := cache''\<rparr>)))"

definition call_tool ::
  "env \<Rightarrow> string \<Rightarrow> jsobject option \<Rightarrow> server_state \<Rightarrow> (js_exn + tool_result) \<times> server_state" where
  "call_tool e name args s =
     (if name = ''superops_test_connection'' then handle_test_connection e s
      else if name = ''superops_navigate'' then handle_navigate args s
      else if name = ''superops_back'' then handle_back s
      else (case getCredentials e of
              None \<Rightarrow> (Inr (error_result no_credentials_text), s)
            | Some creds \<Rightarrow> handle_domain_call e name args s))"

text \<open>A sequence of calls, each with the environment it runs in.\<close>

fun run_calls :: "(env \<times> string \<times> jsobject option) list \<Rightarrow> server_state \<Rightarrow> server_state" where
  "run_calls [] s = s"
| "run_calls ((e, name, args) # rest) s = run_calls rest (snd (call_tool e name args s))"

section \<open>Notions used in the statements\<close>

text \<open>
  \<open>loadDomain\<close> is the only writer of the cache and stores what the module's
  constructor returns, so a cached module is always the constructed one.
\<close>

definition cache_ok :: "(Domain \<Rightarrow> DomainTools option) \<Rightarrow> bool" where
  "cache_ok cache = (\<forall>d t. cache d = Some t \<longrightarrow> t = import_domain d)"

text \<open>The request \<open>query\<close> hands to \<open>fetch\<close>.\<close>

definition request_for :: "SuperOpsClient \<Rightarrow> document \<Rightarrow> jsval \<Rightarrow> http_request" where
  "request_for c q variables =
     \<lparr>url = client_endpoint c,
      authorization = ''Bearer '' @ client_apiToken c,
      customerSubDomain = client_subdomain c,
      body_query = q,
      body_variables = variables\<rparr>"


text \<open>
  \<open>Math.min(params.max ?? d, b)\<close> does not throw: \<open>ToNumber\<close> accepts \<open>params.max\<close>.
  It does for a number, a boolean, a string, null and an absent \<open>max\<close>; it does not
  for an object with a \<open>toString\<close> entry.
\<close>

definition max_converts :: "env \<Rightarrow> jsobject \<Rightarrow> bool" where
  "max_converts e args = (case to_number e (get args ''max'') of Inl x \<Rightarrow> False | Inr n \<Rightarrow> True)"

section \<open>Sample environments and states\<close>

text \<open>Concrete environments on which the theorems below are instantiated.\<close>

definition sample_response :: "jsval \<Rightarrow> http_response" where
  "sample_response body = \<lparr>ok = True, status = 200, statusText = ''OK'', json = JsonParsed body\<rparr>"

definition sample_env :: env where
  "sample_env =
     \<lparr>SUPEROPS_API_TOKEN = Some ''token'',
      SUPEROPS_SUBDOMAIN = Some ''acme'',
      SUPEROPS_REGION = None,
      fetch = (\<lambda>req. Responded (sample_response
                 (JObj [(''data'', JObj [(''getClientList'', JObj [])])]))),
      numberToString = (\<lambda>x. ''0''),
      stringifyPretty = (\<lambda>v. ''{}''),
      stringToNumber = (\<lambda>s. NotANumber),
      upperCaseOther = (\<lambda>s. s)\<rparr>"








definition no_credentials_env :: env where
  "no_credentials_env = sample_env\<lparr>SUPEROPS_API_TOKEN := None\<rparr>"


definition tickets_state :: server_state where
  "tickets_state = initial_state\<lparr>currentDomain := Some Tickets\<rparr>"


section \<open>Properties\<close>

subsection \<open>Loading modules keeps the cache invariant\<close>

lemma loadDomain_fst: "cache_ok c \<Longrightarrow> fst (loadDomain d c) = import_domain d"
  by (auto simp: loadDomain_def cache_ok_def Let_def split: option.splits)

lemma loadDomain_snd: "cache_ok c \<Longrightarrow> cache_ok (snd (loadDomain d c))"
  by (auto simp: loadDomain_def cache_ok_def Let_def split: option.splits)

lemma loadDomain_loaded: "cache_ok c \<Longrightarrow> snd (loadDomain d c) d = Some (import_domain d)"
  by (auto simp: loadDomain_def cache_ok_def Let_def split: option.splits)

lemma find_tool_domain_fst:
  "cache_ok c \<Longrightarrow>
   fst (find_tool_domain name ds c) =
     map_option (\<lambda>d. (d, import_domain d)) (find (\<lambda>d. has_tool (import_domain d) name) ds)"
proof (induction ds arbitrary: c)
  case Nil
  then show ?case by simp
next
  case (Cons d ds)
  obtain t c' where l: "loadDomain d c = (t, c')" by (cases "loadDomain d c")
  from Cons.prems l have t: "t = import_domain d" and c': "cache_ok c'"
    using loadDomain_fst [of c d] loadDomain_snd [of c d] by simp_all
  show ?case using Cons.IH [OF c'] l t by simp
qed

lemma find_tool_domain_snd: "cache_ok c \<Longrightarrow> cache_ok (snd (find_tool_domain name ds c))"
proof (induction ds arbitrary: c)
  case Nil
  then show ?case by simp
next
  case (Cons d ds)
  obtain t c' where l: "loadDomain d c = (t, c')" by (cases "loadDomain d c")
  from Cons.prems l have c': "cache_ok c'"
    using loadDomain_snd [of c d] by simp
  show ?case using Cons.IH [OF c'] l c' by simp
qed

lemma sample_env_credentials: "getCredentials sample_env \<noteq> None"
  by (simp add: getCredentials_def sample_env_def)

lemma initial_cache_ok: "cache_ok (domainCache initial_state)"
  by (simp add: cache_ok_def initial_state_def)

subsection \<open>Every handler keeps the cache invariant\<close>

lemma loadDomain_eq_cache_ok:
  "loadDomain d c = (t, c') \<Longrightarrow> cache_ok c \<Longrightarrow> cache_ok c'"
  using loadDomain_snd [of c d] by simp

lemma list_tools_cache_ok:
  "cache_ok (domainCache s) \<Longrightarrow> cache_ok (domainCache (snd (list_tools s)))"
  by (auto simp: list_tools_def split: option.splits prod.splits dest: loadDomain_eq_cache_ok)

lemma handle_domain_call_cache_ok:
  assumes "cache_ok (domainCache s)"
  shows "cache_ok (domainCache (snd (handle_domain_call e name args s)))"
proof -
  define c1 where "c1 = snd (case currentDomain s of
        None \<Rightarrow> (None, domainCache s)
      | Some cd \<Rightarrow>
          (let (domainTools, cache') = loadDomain cd (domainCache s)
           in (if has_tool domainTools name then Some domainTools else None, cache')))"
  have c1: "cache_ok c1"
    using assms
    by (auto simp: c1_def split: option.splits prod.splits dest: loadDomain_eq_cache_ok)
  have c2: "cache_ok (snd (find_tool_domain name allDomains c1))"
    using c1 by (rule find_tool_domain_snd)
  show ?thesis
    using c1 c2
    by (auto simp: handle_domain_call_def c1_def split: option.splits prod.splits)
qed

lemma call_tool_cache_ok:
  assumes "cache_ok (domainCache s)"
  shows "cache_ok (domainCache (snd (call_tool e name args s)))"
proof -
  have t: "cache_ok (domainCache (snd (handle_test_connection e s)))"
    using assms
    by (auto simp: handle_test_connection_def Let_def split: option.splits prod.splits sum.splits
          dest: loadDomain_eq_cache_ok)
  have n: "cache_ok (domainCache (snd (handle_navigate args s)))"
    using assms
    by (auto simp: handle_navigate_def Let_def split: option.splits prod.splits if_splits
          dest: loadDomain_eq_cache_ok)
  have b: "cache_ok (domainCache (snd (handle_back s)))"
    using assms by (simp add: handle_back_def)
  show ?thesis
    using t n b assms handle_domain_call_cache_ok [OF assms]
    by (simp add: call_tool_def split: option.splits)
qed

lemma run_calls_cache_ok:
  "cache_ok (domainCache s) \<Longrightarrow> cache_ok (domainCache (run_calls cs s))"
proof (induction cs arbitrary: s)
  case Nil
  then show ?case by simp
next
  case (Cons c cs)
  obtain e name args where c: "c = (e, name, args)" by (cases c)
  from Cons.prems have "cache_ok (domainCache (snd (call_tool e name args s)))"
    by (rule call_tool_cache_ok)
  then show ?case using Cons.IH c by simp
qed

lemma reachable_cache_ok: "cache_ok (domainCache (run_calls cs initial_state))"
  using initial_cache_ok by (rule run_calls_cache_ok)

subsection \<open>What the handlers send\<close>

lemma getClient_with_credentials:
  "getCredentials e \<noteq> None \<Longrightarrow>
   \<exists>c. getClient e n = (Inr c, n\<lparr>cached_client := Some c\<rparr>)"
  by (cases "cached_client n") (auto simp: getClient_def Let_def)

lemma query_sent:
  "\<exists>req. sent (snd (query e c q v n)) = sent n @ [req]
         \<and> body_query req = q \<and> body_variables req = v"
  by (simp add: query_def Let_def split: fetch_outcome.splits json_outcome.splits sum.splits)

lemma respond_with_snd [simp]: "snd (respond_with e f r) = snd r"
  by (cases r) (simp add: respond_with_def split: sum.splits)

lemma respond_whole_snd [simp]: "snd (respond_whole e r) = snd r"
  by (cases r) (simp add: respond_whole_def split: sum.splits)

lemma catch_block_snd [simp]: "snd (catch_block e r) = snd r"
  by (cases r) (simp add: catch_block_def split: sum.splits)

lemma with_variables_snd:
  "(\<And>v. snd (send v) = snd (send' v)) \<Longrightarrow> built = Inr input \<Longrightarrow>
   snd (with_variables built send n) = snd (send' (JObj [(''input'', JObj input)]))"
  by (simp add: with_variables_def)

lemma handler_sends_one:
  assumes "getCredentials e \<noteq> None"
    and "\<And>c n'. sw c n' = respond_with e f (query e c q v n')"
    and "\<And>n0. h n0 = (case getClient e n0 of (Inl x, n') \<Rightarrow> (Inl x, n')
                      | (Inr client, n') \<Rightarrow> catch_block e (sw client n'))"
  shows "\<exists>req. sent (snd (h n)) = sent n @ [req] \<and> body_query req = q \<and> body_variables req = v"
proof -
  from assms(1) obtain c where c: "getClient e n = (Inr c, n\<lparr>cached_client := Some c\<rparr>)"
    using getClient_with_credentials by blast
  from assms(2) have sw: "sw c (n\<lparr>cached_client := Some c\<rparr>)
      = respond_with e f (query e c q v (n\<lparr>cached_client := Some c\<rparr>))" by simp
  show ?thesis
    using query_sent [of e c q v "n\<lparr>cached_client := Some c\<rparr>"]
    by (simp add: assms(3) c sw)
qed

lemma handler_sends_none:
  assumes "getCredentials e \<noteq> None"
    and "\<And>c n'. sw c n' = (Inl x, n')"
    and "\<And>n0. h n0 = (case getClient e n0 of (Inl x, n') \<Rightarrow> (Inl x, n')
                      | (Inr client, n') \<Rightarrow> catch_block e (sw client n'))"
  shows "sent (snd (h n)) = sent n"
proof -
  from assms(1) obtain c where c: "getClient e n = (Inr c, n\<lparr>cached_client := Some c\<rparr>)"
    using getClient_with_credentials by blast
  show ?thesis by (simp add: assms(3) c assms(2))
qed

lemma clients_list_sent:
  assumes "getCredentials e \<noteq> None" and "clients_list_input e args = Inr input"
  shows "\<exists>req. sent (snd (clients_handleCall e ''superops_clients_list'' args n)) = sent n @ [req]
            \<and> body_query req = LIST_CLIENTS_QUERY
            \<and> body_variables req = JObj [(''input'', JObj input)]"
  by (rule handler_sends_one [OF assms(1),
         where sw = "\<lambda>c n'. clients_switch e c ''superops_clients_list'' args n'"
         and f = "''getClientList''"])
     (simp_all add: clients_handleCall_def clients_switch_def with_variables_def assms(2))

lemma clients_list_input_max_1:
  "clients_list_input e [(''max'', JNum 1)] =
     Inr [(''first'', JNum 1),
          (''orderBy'', JObj [(''field'', JStr ''name''), (''direction'', JStr ''ASC'')])]"
  by (simp add: clients_list_input_def get_def assign_if_def spread_and_def nullish_def Math_min_def)

subsection \<open>Navigation\<close>

lemma find_domain_string:
  "find (\<lambda>d'. domain_string d' = domain_string d) validDomains = Some d"
  by (cases d) (simp_all add: validDomains_def)

lemma truthy_domain_string: "domain_string d \<noteq> []"
  by (cases d) simp_all

lemma valid_domain_names:
  "intercalate '', '' (map domain_string validDomains)
     = ''clients, tickets, assets, technicians, custom''"
  by (simp add: validDomains_def)

lemma back_state: "snd (call_tool e ''superops_back'' a s) = s\<lparr>currentDomain := None\<rparr>"
  by (simp add: call_tool_def handle_back_def)

lemma list_nav: "currentDomain s = None \<Longrightarrow> fst (list_tools s) = [testConnectionTool, navigationTool]"
  by (simp add: list_tools_def)



text \<open>
  C2. A call of \<open>superops_navigate\<close> whose \<open>domain\<close> argument is one of the five domain
  strings makes that domain the active one and returns a result without error flag; with
  any other argument, or none, the whole state is unchanged and the result is the error
  whose text lists the five domains.
\<close>

theorem navigate_sets_domain_or_rejects:
  "(get (args_or_empty args) ''domain'' = JStr (domain_string d) \<longrightarrow>
      currentDomain (snd (call_tool e ''superops_navigate'' args s)) = Some d \<and>
      (\<exists>r. fst (call_tool e ''superops_navigate'' args s) = Inr r \<and> isError r = None))
   \<and> ((\<forall>d'. get (args_or_empty args) ''domain'' \<noteq> JStr (domain_string d')) \<longrightarrow>
      call_tool e ''superops_navigate'' args s =
        (Inr (error_result
           ''Invalid domain. Please choose from: clients, tickets, assets, technicians, custom''), s))"
proof (intro conjI impI)
  assume a: "get (args_or_empty args) ''domain'' = JStr (domain_string d)"
  then have "call_tool e ''superops_navigate'' args s =
      (let (domainTools, cache') = loadDomain d (domainCache s)
       in (Inr (text_result (JStr
            (''Navigated to '' @ domain_string d @ '' domain. Available tools:'' @ nl @ nl
             @ intercalate nl
                 (map (\<lambda>t. ''- '' @ tool_name t @ '': '' @ tool_description t)
                    (tools domainTools))
             @ nl @ nl @ ''Use superops_back to return to the main menu.''))),
           s\<lparr>currentDomain := Some d, domainCache := cache'\<rparr>))"
    by (simp add: call_tool_def handle_navigate_def find_domain_string truthy_domain_string)
  then show "currentDomain (snd (call_tool e ''superops_navigate'' args s)) = Some d"
    and "\<exists>r. fst (call_tool e ''superops_navigate'' args s) = Inr r \<and> isError r = None"
    by (simp_all add: text_result_def split: prod.splits)
next
  assume a: "\<forall>d'. get (args_or_empty args) ''domain'' \<noteq> JStr (domain_string d')"
  then have "find (\<lambda>d. JStr (domain_string d) = get (args_or_empty args) ''domain'') validDomains = None"
    unfolding find_None_iff by metis
  then show "call_tool e ''superops_navigate'' args s =
        (Inr (error_result
           ''Invalid domain. Please choose from: clients, tickets, assets, technicians, custom''), s)"
    by (simp add: call_tool_def handle_navigate_def valid_domain_names Let_def)
qed

theorem navigate_sets_domain_or_rejects_witness:
  "get (args_or_empty (Some [(''domain'', JStr ''tickets'')])) ''domain'' = JStr (domain_string Tickets)
   \<and> currentDomain (snd (call_tool sample_env ''superops_navigate''
         (Some [(''domain'', JStr ''tickets'')]) initial_state)) = Some Tickets
   \<and> (\<forall>d'. get (args_or_empty (Some [(''domain'', JStr ''billing'')])) ''domain'' \<noteq> JStr (domain_string d'))
   \<and> snd (call_tool sample_env ''superops_navigate''
         (Some [(''domain'', JStr ''billing'')]) initial_state) = initial_state"
proof -
  have h1: "get (args_or_empty (Some [(''domain'', JStr ''tickets'')])) ''domain'' = JStr (domain_string Tickets)"
    by (simp add: get_def args_or_empty_def)
  have h2: "\<forall>d'. get (args_or_empty (Some [(''domain'', JStr ''billing'')])) ''domain'' \<noteq> JStr (domain_string d')"
  proof
    fix d' show "get (args_or_empty (Some [(''domain'', JStr ''billing'')])) ''domain'' \<noteq> JStr (domain_string d')"
      by (cases d') (simp_all add: get_def args_or_empty_def)
  qed
  show ?thesis
    using h1 h2
      navigate_sets_domain_or_rejects [where args = "Some [(''domain'', JStr ''tickets'')]"
        and d = Tickets and e = sample_env and s = initial_state]
      navigate_sets_domain_or_rejects [where args = "Some [(''domain'', JStr ''billing'')]"
        and d = Tickets and e = sample_env and s = initial_state]
    by simp
qed

text \<open>
  C3. From every state, after \<open>navigate("clients")\<close>, any sequence of calls, and then
  \<open>back\<close>, the tool listing is exactly the connection test and the navigate tool.
  \<open>back\<close> clears the active domain from every state, returns a result without error
  flag, and in navigation mode leaves the state as it was.
\<close>

theorem back_then_list_shows_navigation_tools:
  "fst (list_tools (snd (call_tool e2 ''superops_back'' a2
          (run_calls cs (snd (call_tool e1 ''superops_navigate''
             (Some [(''domain'', JStr ''clients'')]) s))))))
     = [testConnectionTool, navigationTool]
   \<and> currentDomain (snd (call_tool e ''superops_back'' a s)) = None
   \<and> (\<exists>r. fst (call_tool e ''superops_back'' a s) = Inr r \<and> isError r = None)
   \<and> (currentDomain s = None \<longrightarrow> snd (call_tool e ''superops_back'' a s) = s)"
  by (simp add: back_state list_nav call_tool_def handle_back_def text_result_def)

theorem back_then_list_shows_navigation_tools_witness:
  "currentDomain initial_state = None
   \<and> snd (call_tool sample_env ''superops_back'' None initial_state) = initial_state"
  using back_then_list_shows_navigation_tools [where e = sample_env and a = None and s = initial_state]
  by (simp add: initial_state_def)


subsection \<open>The connection test\<close>

text \<open>
  C10. \<open>superops_test_connection\<close> never changes the active domain. Without
  credentials it changes nothing at all; with credentials it loads the clients module
  and sends exactly one request, the client list capped to one result.
\<close>

theorem test_connection_keeps_active_domain:
  "currentDomain (snd (call_tool e ''superops_test_connection'' args s)) = currentDomain s
   \<and> (getCredentials e = None \<longrightarrow> snd (call_tool e ''superops_test_connection'' args s) = s)
   \<and> (getCredentials e \<noteq> None \<and> cache_ok (domainCache s) \<longrightarrow>
        domainCache (snd (call_tool e ''superops_test_connection'' args s)) Clients
          = Some getClientsTools
        \<and> (\<exists>req. sent (client_module (snd (call_tool e ''superops_test_connection'' args s)))
                    = sent (client_module s) @ [req]
               \<and> body_query req = LIST_CLIENTS_QUERY
               \<and> body_variables req = JObj [(''input'', JObj
                    [(''first'', JNum 1),
                     (''orderBy'', JObj [(''field'', JStr ''name''), (''direction'', JStr ''ASC'')])])]))"
proof (intro conjI impI)
  show "currentDomain (snd (call_tool e ''superops_test_connection'' args s)) = currentDomain s"
    by (simp add: call_tool_def handle_test_connection_def Let_def
          split: option.splits prod.splits sum.splits)
next
  assume "getCredentials e = None"
  then show "snd (call_tool e ''superops_test_connection'' args s) = s"
    by (simp add: call_tool_def handle_test_connection_def)
next
  assume a: "getCredentials e \<noteq> None \<and> cache_ok (domainCache s)"
  then obtain creds where creds: "getCredentials e = Some creds" by auto
  obtain t c' where l: "loadDomain Clients (domainCache s) = (t, c')"
    by (cases "loadDomain Clients (domainCache s)")
  from a l have t: "t = getClientsTools" and c': "c' Clients = Some getClientsTools"
    using loadDomain_fst [of "domainCache s" Clients] loadDomain_loaded [of "domainCache s" Clients]
    by simp_all
  obtain r n' where h: "clients_handleCall e ''superops_clients_list'' [(''max'', JNum 1)]
      (client_module s) = (r, n')"
    by (cases "clients_handleCall e ''superops_clients_list'' [(''max'', JNum 1)] (client_module s)")
  have st: "snd (call_tool e ''superops_test_connection'' args s)
      = s\<lparr>domainCache := c', client_module := n'\<rparr>"
    by (simp add: call_tool_def handle_test_connection_def creds l t getClientsTools_def h Let_def
          split: sum.splits)
  show "domainCache (snd (call_tool e ''superops_test_connection'' args s)) Clients
          = Some getClientsTools"
    by (simp add: st c')
  show "\<exists>req. sent (client_module (snd (call_tool e ''superops_test_connection'' args s)))
                    = sent (client_module s) @ [req]
               \<and> body_query req = LIST_CLIENTS_QUERY
               \<and> body_variables req = JObj [(''input'', JObj
                    [(''first'', JNum 1),
                     (''orderBy'', JObj [(''field'', JStr ''name''), (''direction'', JStr ''ASC'')])])]"
    using clients_list_sent [OF _ clients_list_input_max_1, of e "client_module s"] a
    by (simp add: st h)
qed

theorem test_connection_keeps_active_domain_witness:
  "getCredentials sample_env \<noteq> None \<and> cache_ok (domainCache tickets_state)
   \<and> domainCache (snd (call_tool sample_env ''superops_test_connection'' None tickets_state)) Clients
        = Some getClientsTools
   \<and> currentDomain (snd (call_tool sample_env ''superops_test_connection'' None tickets_state))
        = Some Tickets
   \<and> getCredentials no_credentials_env = None
   \<and> snd (call_tool no_credentials_env ''superops_test_connection'' None tickets_state)
        = tickets_state"
proof -
  have c: "cache_ok (domainCache tickets_state)"
    by (simp add: cache_ok_def tickets_state_def initial_state_def)
  have n: "getCredentials no_credentials_env = None"
    by (simp add: getCredentials_def no_credentials_env_def sample_env_def)
  have d: "currentDomain tickets_state = Some Tickets" by (simp add: tickets_state_def)
  show ?thesis
    using test_connection_keeps_active_domain [where e = sample_env and args = None
            and s = tickets_state]
          test_connection_keeps_active_domain [where e = no_credentials_env and args = None
            and s = tickets_state]
          sample_env_credentials c n d
    by simp
qed


subsection \<open>Request shaping\<close>

lemma Math_min_max:
  "Math_min e (nullish v (JNum d)) b =
     (case to_number e v of
        Inl x \<Rightarrow> Inl x
      | Inr n \<Rightarrow> Inr (if v = JUndef \<or> v = JNull then JNum (min d b) else number_min n b))"
  by (cases v) (simp_all add: Math_min_def nullish_def split: sum.splits)

lemma Math_min_converts:
  "max_converts e args \<longleftrightarrow> (\<exists>first. Math_min e (nullish (get args ''max'') (JNum d)) b = Inr first)"
  by (simp add: max_converts_def Math_min_max split: sum.splits)

lemma Math_min_number:
  "Math_min e (nullish (JNum m) (JNum d)) b = Inr (JNum (min m b))"
  by (simp add: Math_min_max)

lemma Math_min_absent:
  "v = JUndef \<or> v = JNull \<Longrightarrow> Math_min e (nullish v (JNum d)) b = Inr (JNum (min d b))"
  by (auto simp: Math_min_max)

lemma max_converts_simple:
  "get args ''max'' = JNum m \<or> get args ''max'' = JUndef \<or> get args ''max'' = JNull
   \<Longrightarrow> max_converts e args"
  by (auto simp: max_converts_def)

lemma max_converts_toString:
  "get args ''max'' = JObj kvs \<Longrightarrow> map_of kvs ''toString'' \<noteq> None \<Longrightarrow> \<not> max_converts e args"
  by (simp add: max_converts_def)

text \<open>
  A case that builds its variables and then sends them: nothing is sent when building
  throws, exactly one request with these variables otherwise.
\<close>

lemma built_handler_sent:
  assumes "getCredentials e \<noteq> None"
    and "\<And>c n'. sw c n' =
           with_variables built (\<lambda>variables. respond_with e f (query e c q variables n')) n'"
    and "\<And>n0. h n0 = (case getClient e n0 of (Inl x, n') \<Rightarrow> (Inl x, n')
                      | (Inr client, n') \<Rightarrow> catch_block e (sw client n'))"
  shows "case built of
           Inl x \<Rightarrow> sent (snd (h n)) = sent n
         | Inr input \<Rightarrow>
             (\<exists>req. sent (snd (h n)) = sent n @ [req] \<and> body_query req = q
                \<and> body_variables req = JObj [(''input'', JObj input)])"
proof (cases built)
  case (Inl x)
  have "sent (snd (h n)) = sent n"
    by (rule handler_sends_none [OF assms(1) _ assms(3)])
       (simp add: assms(2) Inl with_variables_def)
  with Inl show ?thesis by simp
next
  case (Inr input)
  have "\<exists>req. sent (snd (h n)) = sent n @ [req] \<and> body_query req = q
                \<and> body_variables req = JObj [(''input'', JObj input)]"
    by (rule handler_sends_one [OF assms(1) _ assms(3)])
       (simp add: assms(2) Inr with_variables_def)
  with Inr show ?thesis by simp
qed

lemma built_handler_issued:
  assumes "case built of
           Inl x \<Rightarrow> sent n' = sent n
         | Inr input \<Rightarrow>
             (\<exists>req. sent n' = sent n @ [req] \<and> body_query req = q
                \<and> body_variables req = JObj [(''input'', JObj input)])"
    and "sent n' = sent n @ [req]"
  shows "\<exists>input. built = Inr input \<and> body_query req = q
           \<and> body_variables req = JObj [(''input'', JObj input)]"
  using assms by (cases built) auto

lemma clients_list_requests:
  assumes "getCredentials e \<noteq> None"
  shows "case clients_list_input e args of
           Inl x \<Rightarrow> sent (snd (clients_handleCall e ''superops_clients_list'' args n)) = sent n
         | Inr input \<Rightarrow>
             (\<exists>req. sent (snd (clients_handleCall e ''superops_clients_list'' args n)) = sent n @ [req]
                \<and> body_query req = LIST_CLIENTS_QUERY
                \<and> body_variables req = JObj [(''input'', JObj input)])"
  by (rule built_handler_sent [OF assms,
         where sw = "\<lambda>c n'. clients_switch e c ''superops_clients_list'' args n'"
         and f = "''getClientList''"])
     (simp_all add: clients_handleCall_def clients_switch_def)

lemma technicians_list_requests:
  assumes "getCredentials e \<noteq> None"
  shows "case technicians_list_input e args of
           Inl x \<Rightarrow> sent (snd (technicians_handleCall e ''superops_technicians_list'' args n)) = sent n
         | Inr input \<Rightarrow>
             (\<exists>req. sent (snd (technicians_handleCall e ''superops_technicians_list'' args n))
                       = sent n @ [req]
                \<and> body_query req = LIST_TECHNICIANS_QUERY
                \<and> body_variables req = JObj [(''input'', JObj input)])"
  by (rule built_handler_sent [OF assms,
         where sw = "\<lambda>c n'. technicians_switch e c ''superops_technicians_list'' args n'"
         and f = "''getTechnicianList''"])
     (simp_all add: technicians_handleCall_def technicians_switch_def)

lemma tickets_list_requests:
  assumes "getCredentials e \<noteq> None"
  shows "case tickets_list_input e args of
           Inl x \<Rightarrow> sent (snd (tickets_handleCall e ''superops_tickets_list'' args n)) = sent n
         | Inr input \<Rightarrow>
             (\<exists>req. sent (snd (tickets_handleCall e ''superops_tickets_list'' args n)) = sent n @ [req]
                \<and> body_query req = LIST_TICKETS_QUERY
                \<and> body_variables req = JObj [(''input'', JObj input)])"
  by (rule built_handler_sent [OF assms,
         where sw = "\<lambda>c n'. tickets_switch e c ''superops_tickets_list'' args n'"
         and f = "''getTicketList''"])
     (simp_all add: tickets_handleCall_def tickets_switch_def)

lemma clients_list_input_first:
  "case Math_min e (nullish (get args ''max'') (JNum 50)) 500 of
     Inl x \<Rightarrow> clients_list_input e args = Inl x
   | Inr first \<Rightarrow>
       (\<exists>input. clients_list_input e args = Inr input \<and> map_of input ''first'' = Some first)"
  by (simp add: clients_list_input_def Let_def split: sum.splits)

lemma clients_list_input_empty:
  "clients_list_input e [] =
     Inr [(''first'', JNum 50),
          (''orderBy'', JObj [(''field'', JStr ''name''), (''direction'', JStr ''ASC'')])]"
  by (simp add: clients_list_input_def assign_if_def spread_and_def get_def nullish_def Math_min_def)

text \<open>
  C6. \<open>superops_clients_list\<close> with no arguments sends one request whose input is exactly
  \<open>first: 50\<close> and \<open>orderBy: {field: "name", direction: "ASC"}\<close>, with no \<open>filter\<close>
  key. In every request the handler sends, \<open>first\<close> is what \<open>Math.min(max ?? 50, 500)\<close>
  gives: \<open>min max 500\<close> for a number \<open>max\<close>, 50 when \<open>max\<close> is absent or null; in both of
  these cases a request is sent. When \<open>Math.min\<close> throws on \<open>max\<close>, nothing is sent.
\<close>

theorem clients_list_default_and_clamp:
  assumes "getCredentials e \<noteq> None"
  shows "(\<exists>req. sent (snd (clients_handleCall e ''superops_clients_list'' [] n)) = sent n @ [req]
            \<and> body_variables req = JObj [(''input'', JObj
                 [(''first'', JNum 50),
                  (''orderBy'', JObj [(''field'', JStr ''name''), (''direction'', JStr ''ASC'')])])])
       \<and> (\<forall>req. sent (snd (clients_handleCall e ''superops_clients_list'' args n)) = sent n @ [req]
            \<longrightarrow> Math_min e (nullish (get args ''max'') (JNum 50)) 500
                  = Inr (getprop (getprop (body_variables req) ''input'') ''first''))
       \<and> (\<forall>m. get args ''max'' = JNum m \<longrightarrow>
            (\<exists>req. sent (snd (clients_handleCall e ''superops_clients_list'' args n)) = sent n @ [req]
               \<and> getprop (getprop (body_variables req) ''input'') ''first'' = JNum (min m 500)))
       \<and> (get args ''max'' = JUndef \<or> get args ''max'' = JNull \<longrightarrow>
            (\<exists>req. sent (snd (clients_handleCall e ''superops_clients_list'' args n)) = sent n @ [req]
               \<and> getprop (getprop (body_variables req) ''input'') ''first'' = JNum 50))
       \<and> (\<not> max_converts e args \<longrightarrow>
            sent (snd (clients_handleCall e ''superops_clients_list'' args n)) = sent n)"
proof (intro conjI allI impI)
  show "\<exists>req. sent (snd (clients_handleCall e ''superops_clients_list'' [] n)) = sent n @ [req]
            \<and> body_variables req = JObj [(''input'', JObj
                 [(''first'', JNum 50),
                  (''orderBy'', JObj [(''field'', JStr ''name''), (''direction'', JStr ''ASC'')])])]"
    using clients_list_requests [OF assms, of "[]" n] by (auto simp: clients_list_input_empty)
next
  fix req
  assume "sent (snd (clients_handleCall e ''superops_clients_list'' args n)) = sent n @ [req]"
  from built_handler_issued [OF clients_list_requests [OF assms, of args n] this]
  obtain input where i: "clients_list_input e args = Inr input"
      "body_variables req = JObj [(''input'', JObj input)]" by blast
  then show "Math_min e (nullish (get args ''max'') (JNum 50)) 500
                  = Inr (getprop (getprop (body_variables req) ''input'') ''first'')"
    using clients_list_input_first [of e args] by (auto split: sum.splits)
next
  fix m assume m: "get args ''max'' = JNum m"
  then have "\<exists>input. clients_list_input e args = Inr input
      \<and> map_of input ''first'' = Some (JNum (min m 500))"
    using clients_list_input_first [of e args] by (simp add: Math_min_number)
  then show "\<exists>req. sent (snd (clients_handleCall e ''superops_clients_list'' args n)) = sent n @ [req]
               \<and> getprop (getprop (body_variables req) ''input'') ''first'' = JNum (min m 500)"
    using clients_list_requests [OF assms, of args n] by auto
next
  assume "get args ''max'' = JUndef \<or> get args ''max'' = JNull"
  then have "\<exists>input. clients_list_input e args = Inr input
      \<and> map_of input ''first'' = Some (JNum 50)"
    using clients_list_input_first [of e args] Math_min_absent [of "get args ''max''" e 50 500]
    by simp
  then show "\<exists>req. sent (snd (clients_handleCall e ''superops_clients_list'' args n)) = sent n @ [req]
               \<and> getprop (getprop (body_variables req) ''input'') ''first'' = JNum 50"
    using clients_list_requests [OF assms, of args n] by auto
next
  assume "\<not> max_converts e args"
  then have "\<exists>x. clients_list_input e args = Inl x"
    using clients_list_input_first [of e args]
    by (auto simp: Math_min_converts [of e args 50 500] split: sum.splits)
  then show "sent (snd (clients_handleCall e ''superops_clients_list'' args n)) = sent n"
    using clients_list_requests [OF assms, of args n] by auto
qed

theorem clients_list_default_and_clamp_witness:
  "getCredentials sample_env \<noteq> None
   \<and> get [(''max'', JNum 1000)] ''max'' = JNum 1000
   \<and> (\<exists>req. sent (snd (clients_handleCall sample_env ''superops_clients_list''
                [(''max'', JNum 1000)] \<lparr>cached_client = None, sent = []\<rparr>)) = [] @ [req]
          \<and> getprop (getprop (body_variables req) ''input'') ''first'' = JNum 500)
   \<and> get [(''status'', JStr ''Active'')] ''max'' = JUndef
   \<and> (\<exists>req. sent (snd (clients_handleCall sample_env ''superops_clients_list''
                [(''status'', JStr ''Active'')] \<lparr>cached_client = None, sent = []\<rparr>)) = [] @ [req]
          \<and> getprop (getprop (body_variables req) ''input'') ''first'' = JNum 50)
   \<and> \<not> max_converts sample_env [(''max'', JObj [(''toString'', JNum 1)])]
   \<and> sent (snd (clients_handleCall sample_env ''superops_clients_list''
                [(''max'', JObj [(''toString'', JNum 1)])] \<lparr>cached_client = None, sent = []\<rparr>)) = []"
proof -
  have h: "get [(''max'', JNum 1000)] ''max'' = JNum 1000"
    "get [(''status'', JStr ''Active'')] ''max'' = JUndef"
    "\<not> max_converts sample_env [(''max'', JObj [(''toString'', JNum 1)])]"
    by (simp_all add: get_def max_converts_def)
  have 1: "\<exists>req. sent (snd (clients_handleCall sample_env ''superops_clients_list''
                [(''max'', JNum 1000)] \<lparr>cached_client = None, sent = []\<rparr>)) = [] @ [req]
          \<and> getprop (getprop (body_variables req) ''input'') ''first'' = JNum 500"
    using clients_list_default_and_clamp [OF sample_env_credentials,
        where args = "[(''max'', JNum 1000)]" and n = "\<lparr>cached_client = None, sent = []\<rparr>"] h
    by auto
  have 2: "\<exists>req. sent (snd (clients_handleCall sample_env ''superops_clients_list''
                [(''status'', JStr ''Active'')] \<lparr>cached_client = None, sent = []\<rparr>)) = [] @ [req]
          \<and> getprop (getprop (body_variables req) ''input'') ''first'' = JNum 50"
    using clients_list_default_and_clamp [OF sample_env_credentials,
        where args = "[(''status'', JStr ''Active'')]" and n = "\<lparr>cached_client = None, sent = []\<rparr>"] h
    by auto
  have 3: "sent (snd (clients_handleCall sample_env ''superops_clients_list''
                [(''max'', JObj [(''toString'', JNum 1)])] \<lparr>cached_client = None, sent = []\<rparr>)) = []"
    using clients_list_default_and_clamp [OF sample_env_credentials,
        where args = "[(''max'', JObj [(''toString'', JNum 1)])]"
          and n = "\<lparr>cached_client = None, sent = []\<rparr>"] h
    by simp
  show ?thesis using 1 2 3 h sample_env_credentials by simp
qed

lemma technicians_list_filter_cases:
  "technicians_list_filter args =
     (if get args ''activeOnly'' \<noteq> JBool False then [(''isActive'', JBool True)] else [])
     @ (if truthy (get args ''teamId'') then [(''teams'', JObj [(''id'', get args ''teamId'')])] else [])"
  by (simp add: technicians_list_filter_def assign_if_def)


lemma technicians_list_input_built:
  "case Math_min e (nullish (get args ''max'') (JNum 50)) 500 of
     Inl x \<Rightarrow> technicians_list_input e args = Inl x
   | Inr first \<Rightarrow>
       (\<exists>input. technicians_list_input e args = Inr input
          \<and> map_of input ''filter'' =
               (if technicians_list_filter args = [] then None
                else Some (JObj (technicians_list_filter args)))
          \<and> fst ` set input =
               {''first'', ''orderBy''}
               \<union> (if truthy (get args ''cursor'') then {''after''} else {})
               \<union> (if technicians_list_filter args = [] then {} else {''filter''}))"
  by (auto simp: technicians_list_input_def Let_def spread_and_def split: sum.splits)

lemma technicians_list_input_converts:
  "max_converts e args \<longleftrightarrow> (\<exists>input. technicians_list_input e args = Inr input)"
  using technicians_list_input_built [of e args]
  by (auto simp: Math_min_converts [of e args 50 500] split: sum.splits)

lemma technicians_list_input_props:
  assumes "technicians_list_input e args = Inr input"
  shows "map_of input ''filter'' =
               (if technicians_list_filter args = [] then None
                else Some (JObj (technicians_list_filter args)))"
    and "fst ` set input =
               {''first'', ''orderBy''}
               \<union> (if truthy (get args ''cursor'') then {''after''} else {})
               \<union> (if technicians_list_filter args = [] then {} else {''filter''})"
  using technicians_list_input_built [of e args] assms by (auto split: sum.splits)

text \<open>
  C7. \<open>superops_technicians_list\<close> with no arguments sends the filter
  \<open>{isActive: true}\<close>. In every request the handler sends: with \<open>activeOnly: false\<close> there
  is no \<open>isActive\<close> key, neither in the input nor in its filter, and when no team is given
  either, the input has no \<open>filter\<close> key; an empty object is never sent as filter. A
  request is sent exactly when \<open>Math.min\<close> accepts \<open>max\<close>.
\<close>

theorem technicians_list_filter_shape:
  assumes "getCredentials e \<noteq> None"
  shows "(\<exists>req. sent (snd (technicians_handleCall e ''superops_technicians_list'' [] n)) = sent n @ [req]
            \<and> getprop (getprop (body_variables req) ''input'') ''filter''
                 = JObj [(''isActive'', JBool True)])
       \<and> (\<forall>req. sent (snd (technicians_handleCall e ''superops_technicians_list'' args n))
                   = sent n @ [req] \<longrightarrow>
            (\<exists>input. body_variables req = JObj [(''input'', JObj input)]
               \<and> map_of input ''filter'' \<noteq> Some (JObj [])
               \<and> (get args ''activeOnly'' = JBool False \<longrightarrow>
                     ''isActive'' \<notin> fst ` set input
                     \<and> (\<forall>filter. map_of input ''filter'' = Some (JObj filter)
                           \<longrightarrow> ''isActive'' \<notin> fst ` set filter))
               \<and> (get args ''activeOnly'' = JBool False \<and> \<not> truthy (get args ''teamId'') \<longrightarrow>
                     ''filter'' \<notin> fst ` set input)))
       \<and> (max_converts e args \<longrightarrow>
            (\<exists>req. sent (snd (technicians_handleCall e ''superops_technicians_list'' args n))
                      = sent n @ [req]))
       \<and> (\<not> max_converts e args \<longrightarrow>
            sent (snd (technicians_handleCall e ''superops_technicians_list'' args n)) = sent n)"
proof (intro conjI allI impI)
  have "\<exists>input. technicians_list_input e [] = Inr input
      \<and> map_of input ''filter'' = Some (JObj [(''isActive'', JBool True)])"
    using technicians_list_input_built [of e "[]"]
    by (auto simp: technicians_list_filter_cases get_def nullish_def Math_min_def)
  then show "\<exists>req. sent (snd (technicians_handleCall e ''superops_technicians_list'' [] n)) = sent n @ [req]
            \<and> getprop (getprop (body_variables req) ''input'') ''filter''
                 = JObj [(''isActive'', JBool True)]"
    using technicians_list_requests [OF assms, of "[]" n] by auto
next
  fix req
  assume "sent (snd (technicians_handleCall e ''superops_technicians_list'' args n)) = sent n @ [req]"
  from built_handler_issued [OF technicians_list_requests [OF assms, of args n] this]
  obtain input where i: "technicians_list_input e args = Inr input"
      "body_variables req = JObj [(''input'', JObj input)]" by blast
  note p = technicians_list_input_props [OF i(1)]
  have 1: "map_of input ''filter'' \<noteq> Some (JObj [])"
    by (simp add: p(1))
  have 2: "get args ''activeOnly'' = JBool False \<longrightarrow>
                  ''isActive'' \<notin> fst ` set input
                  \<and> (\<forall>filter. map_of input ''filter'' = Some (JObj filter)
                        \<longrightarrow> ''isActive'' \<notin> fst ` set filter)"
    by (auto simp: p technicians_list_filter_cases split: if_splits)
  have 3: "get args ''activeOnly'' = JBool False \<and> \<not> truthy (get args ''teamId'') \<longrightarrow>
                  ''filter'' \<notin> fst ` set input"
    by (auto simp: p technicians_list_filter_cases split: if_splits)
  from i(2) 1 2 3
  show "\<exists>input. body_variables req = JObj [(''input'', JObj input)]
               \<and> map_of input ''filter'' \<noteq> Some (JObj [])
               \<and> (get args ''activeOnly'' = JBool False \<longrightarrow>
                     ''isActive'' \<notin> fst ` set input
                     \<and> (\<forall>filter. map_of input ''filter'' = Some (JObj filter)
                           \<longrightarrow> ''isActive'' \<notin> fst ` set filter))
               \<and> (get args ''activeOnly'' = JBool False \<and> \<not> truthy (get args ''teamId'') \<longrightarrow>
                     ''filter'' \<notin> fst ` set input)"
    by blast
next
  assume "max_converts e args"
  then obtain input where "technicians_list_input e args = Inr input"
    by (auto simp: technicians_list_input_converts)
  then show "\<exists>req. sent (snd (technicians_handleCall e ''superops_technicians_list'' args n))
                      = sent n @ [req]"
    using technicians_list_requests [OF assms, of args n] by auto
next
  assume "\<not> max_converts e args"
  then obtain x where "technicians_list_input e args = Inl x"
    by (cases "technicians_list_input e args") (auto simp: technicians_list_input_converts)
  then show "sent (snd (technicians_handleCall e ''superops_technicians_list'' args n)) = sent n"
    using technicians_list_requests [OF assms, of args n] by auto
qed

theorem technicians_list_filter_shape_witness:
  "getCredentials sample_env \<noteq> None
   \<and> get [(''activeOnly'', JBool False)] ''activeOnly'' = JBool False
   \<and> \<not> truthy (get [(''activeOnly'', JBool False)] ''teamId'')
   \<and> max_converts sample_env [(''activeOnly'', JBool False)]
   \<and> (\<exists>req input.
         sent (snd (technicians_handleCall sample_env ''superops_technicians_list''
                      [(''activeOnly'', JBool False)] \<lparr>cached_client = None, sent = []\<rparr>)) = [] @ [req]
         \<and> body_variables req = JObj [(''input'', JObj input)]
         \<and> ''isActive'' \<notin> fst ` set input
         \<and> ''filter'' \<notin> fst ` set input)
   \<and> \<not> max_converts sample_env [(''activeOnly'', JBool False), (''max'', JObj [(''toString'', JNum 1)])]
   \<and> sent (snd (technicians_handleCall sample_env ''superops_technicians_list''
                   [(''activeOnly'', JBool False), (''max'', JObj [(''toString'', JNum 1)])]
                   \<lparr>cached_client = None, sent = []\<rparr>)) = []"
proof -
  have h: "get [(''activeOnly'', JBool False)] ''activeOnly'' = JBool False"
    "\<not> truthy (get [(''activeOnly'', JBool False)] ''teamId'')"
    "max_converts sample_env [(''activeOnly'', JBool False)]"
    "\<not> max_converts sample_env [(''activeOnly'', JBool False), (''max'', JObj [(''toString'', JNum 1)])]"
    by (simp_all add: get_def max_converts_def)
  note t1 = technicians_list_filter_shape [OF sample_env_credentials,
        where args = "[(''activeOnly'', JBool False)]" and n = "\<lparr>cached_client = None, sent = []\<rparr>"]
  from t1 h(3) obtain req where
    r: "sent (snd (technicians_handleCall sample_env ''superops_technicians_list''
                      [(''activeOnly'', JBool False)] \<lparr>cached_client = None, sent = []\<rparr>))
          = sent \<lparr>cached_client = None, sent = []\<rparr> @ [req]"
    by blast
  note a = t1 [THEN conjunct2, THEN conjunct1, rule_format, OF r]
  have 1: "\<exists>req input.
         sent (snd (technicians_handleCall sample_env ''superops_technicians_list''
                      [(''activeOnly'', JBool False)] \<lparr>cached_client = None, sent = []\<rparr>)) = [] @ [req]
         \<and> body_variables req = JObj [(''input'', JObj input)]
         \<and> ''isActive'' \<notin> fst ` set input
         \<and> ''filter'' \<notin> fst ` set input"
    using a r h(1,2) by auto
  have 2: "sent (snd (technicians_handleCall sample_env ''superops_technicians_list''
                   [(''activeOnly'', JBool False), (''max'', JObj [(''toString'', JNum 1)])]
                   \<lparr>cached_client = None, sent = []\<rparr>)) = []"
    using technicians_list_filter_shape [OF sample_env_credentials,
        where args = "[(''activeOnly'', JBool False), (''max'', JObj [(''toString'', JNum 1)])]"
          and n = "\<lparr>cached_client = None, sent = []\<rparr>"] h(4)
    by simp
  show ?thesis using 1 2 h sample_env_credentials by simp
qed

lemma assign_if_keys:
  "fst ` set (assign_if c k v obj) = (if truthy c then {k} else {}) \<union> fst ` set obj"
  by (simp add: assign_if_def dom_update)

lemma assign_if_map:
  "map_of (assign_if c k v obj) = (if truthy c then (map_of obj)(k \<mapsto> v) else map_of obj)"
  by (simp add: assign_if_def update_conv')

lemma assign_if_distinct:
  "distinct (map fst obj) \<Longrightarrow> distinct (map fst (assign_if c k v obj))"
  by (simp add: assign_if_def distinct_update)


lemma tickets_list_input_built:
  "case Math_min e (nullish (get args ''max'') (JNum 50)) 500 of
     Inl x \<Rightarrow> tickets_list_input e args = Inl x
   | Inr first \<Rightarrow>
       (\<exists>input. tickets_list_input e args = Inr input
          \<and> map_of input ''filter'' =
               (if tickets_list_filter args = [] then None
                else Some (JObj (tickets_list_filter args))))"
  by (auto simp: tickets_list_input_def Let_def spread_and_def split: sum.splits)

lemma tickets_list_input_converts:
  "max_converts e args \<longleftrightarrow> (\<exists>input. tickets_list_input e args = Inr input)"
  using tickets_list_input_built [of e args]
  by (auto simp: Math_min_converts [of e args 50 500] split: sum.splits)

lemma tickets_list_input_filter:
  assumes "tickets_list_input e args = Inr input"
  shows "map_of input ''filter'' =
               (if tickets_list_filter args = [] then None
                else Some (JObj (tickets_list_filter args)))"
  using tickets_list_input_built [of e args] assms by (auto split: sum.splits)

lemma tickets_list_filter_keys:
  "fst ` set (tickets_list_filter args) =
     (if truthy (get args ''status'') then {''status''} else {})
     \<union> (if truthy (get args ''priority'') then {''priority''} else {})
     \<union> (if truthy (get args ''clientId'') then {''client''} else {})
     \<union> (if truthy (get args ''assigneeId'') \<or> truthy (get args ''unassigned'')
         then {''assignee''} else {})"
  by (auto simp: tickets_list_filter_def Let_def assign_if_keys)

lemma tickets_list_filter_map:
  "map_of (tickets_list_filter args) =
     (\<lambda>k. if k = ''assignee'' \<and> truthy (get args ''unassigned'') then Some JNull
          else if k = ''assignee'' \<and> truthy (get args ''assigneeId'')
            then Some (JObj [(''id'', get args ''assigneeId'')])
          else if k = ''client'' \<and> truthy (get args ''clientId'')
            then Some (JObj [(''accountId'', get args ''clientId'')])
          else if k = ''priority'' \<and> truthy (get args ''priority'') then Some (get args ''priority'')
          else if k = ''status'' \<and> truthy (get args ''status'') then Some (get args ''status'')
          else None)"
  by (rule ext) (simp add: tickets_list_filter_def Let_def assign_if_map)

lemma tickets_list_filter_unassigned:
  "truthy (get args ''unassigned'') \<Longrightarrow> tickets_list_filter args \<noteq> []"
  using tickets_list_filter_keys [of args] by auto

lemma tickets_list_filter_null:
  assumes "(k, JNull) \<in> set (tickets_list_filter args)"
  shows "k = ''assignee'' \<and> truthy (get args ''unassigned'')"
proof -
  have d: "distinct (map fst (tickets_list_filter args))"
    by (simp add: tickets_list_filter_def Let_def assign_if_distinct)
  from assms d have "map_of (tickets_list_filter args) k = Some JNull" by simp
  then show ?thesis
    by (auto simp: tickets_list_filter_map split: if_splits)
qed


text \<open>
  C8. In every request \<open>superops_tickets_list\<close> sends: with \<open>unassigned: true\<close> the filter
  has the key \<open>assignee\<close> with the value null; every other filter key is absent when its
  argument is absent, and no key other than \<open>assignee\<close> under \<open>unassigned\<close> carries null.
  A request is sent exactly when \<open>Math.min\<close> accepts \<open>max\<close>.
\<close>

theorem tickets_list_unassigned_sends_null:
  assumes "getCredentials e \<noteq> None"
  shows "(\<forall>req. sent (snd (tickets_handleCall e ''superops_tickets_list'' args n)) = sent n @ [req]
            \<longrightarrow>
            (\<exists>input. body_variables req = JObj [(''input'', JObj input)]
               \<and> (get args ''unassigned'' = JBool True \<longrightarrow>
                    (\<exists>filter. map_of input ''filter'' = Some (JObj filter)
                       \<and> map_of filter ''assignee'' = Some JNull))
               \<and> (\<forall>filter. map_of input ''filter'' = Some (JObj filter) \<longrightarrow>
                    (\<not> truthy (get args ''status'') \<longrightarrow> ''status'' \<notin> fst ` set filter)
                    \<and> (\<not> truthy (get args ''priority'') \<longrightarrow> ''priority'' \<notin> fst ` set filter)
                    \<and> (\<not> truthy (get args ''clientId'') \<longrightarrow> ''client'' \<notin> fst ` set filter)
                    \<and> (\<not> truthy (get args ''assigneeId'') \<and> \<not> truthy (get args ''unassigned'')
                          \<longrightarrow> ''assignee'' \<notin> fst ` set filter)
                    \<and> (\<forall>k. (k, JNull) \<in> set filter \<longrightarrow>
                          k = ''assignee'' \<and> truthy (get args ''unassigned'')))))
       \<and> (max_converts e args \<longrightarrow>
            (\<exists>req. sent (snd (tickets_handleCall e ''superops_tickets_list'' args n)) = sent n @ [req]))
       \<and> (\<not> max_converts e args \<longrightarrow>
            sent (snd (tickets_handleCall e ''superops_tickets_list'' args n)) = sent n)"
proof (intro conjI allI impI)
  fix req
  assume "sent (snd (tickets_handleCall e ''superops_tickets_list'' args n)) = sent n @ [req]"
  from built_handler_issued [OF tickets_list_requests [OF assms, of args n] this]
  obtain input where i: "tickets_list_input e args = Inr input"
      "body_variables req = JObj [(''input'', JObj input)]" by blast
  note f = tickets_list_input_filter [OF i(1)]
  have 1: "get args ''unassigned'' = JBool True \<longrightarrow>
             (\<exists>filter. map_of input ''filter'' = Some (JObj filter)
                \<and> map_of filter ''assignee'' = Some JNull)"
    by (simp add: f tickets_list_filter_unassigned tickets_list_filter_map)
  have 2: "\<forall>filter. map_of input ''filter'' = Some (JObj filter) \<longrightarrow>
                (\<not> truthy (get args ''status'') \<longrightarrow> ''status'' \<notin> fst ` set filter)
                \<and> (\<not> truthy (get args ''priority'') \<longrightarrow> ''priority'' \<notin> fst ` set filter)
                \<and> (\<not> truthy (get args ''clientId'') \<longrightarrow> ''client'' \<notin> fst ` set filter)
                \<and> (\<not> truthy (get args ''assigneeId'') \<and> \<not> truthy (get args ''unassigned'')
                      \<longrightarrow> ''assignee'' \<notin> fst ` set filter)
                \<and> (\<forall>k. (k, JNull) \<in> set filter \<longrightarrow>
                      k = ''assignee'' \<and> truthy (get args ''unassigned''))"
  proof (intro allI impI)
    fix filter assume "map_of input ''filter'' = Some (JObj filter)"
    then have ft: "filter = tickets_list_filter args"
      by (simp add: f split: if_splits)
    show "(\<not> truthy (get args ''status'') \<longrightarrow> ''status'' \<notin> fst ` set filter)
                \<and> (\<not> truthy (get args ''priority'') \<longrightarrow> ''priority'' \<notin> fst ` set filter)
                \<and> (\<not> truthy (get args ''clientId'') \<longrightarrow> ''client'' \<notin> fst ` set filter)
                \<and> (\<not> truthy (get args ''assigneeId'') \<and> \<not> truthy (get args ''unassigned'')
                      \<longrightarrow> ''assignee'' \<notin> fst ` set filter)
                \<and> (\<forall>k. (k, JNull) \<in> set filter \<longrightarrow>
                      k = ''assignee'' \<and> truthy (get args ''unassigned''))"
      unfolding ft using tickets_list_filter_null [of _ args]
      by (simp add: tickets_list_filter_keys)
  qed
  from i(2) 1 2
  show "\<exists>input. body_variables req = JObj [(''input'', JObj input)]
               \<and> (get args ''unassigned'' = JBool True \<longrightarrow>
                    (\<exists>filter. map_of input ''filter'' = Some (JObj filter)
                       \<and> map_of filter ''assignee'' = Some JNull))
               \<and> (\<forall>filter. map_of input ''filter'' = Some (JObj filter) \<longrightarrow>
                    (\<not> truthy (get args ''status'') \<longrightarrow> ''status'' \<notin> fst ` set filter)
                    \<and> (\<not> truthy (get args ''priority'') \<longrightarrow> ''priority'' \<notin> fst ` set filter)
                    \<and> (\<not> truthy (get args ''clientId'') \<longrightarrow> ''client'' \<notin> fst ` set filter)
                    \<and> (\<not> truthy (get args ''assigneeId'') \<and> \<not> truthy (get args ''unassigned'')
                          \<longrightarrow> ''assignee'' \<notin> fst ` set filter)
                    \<and> (\<forall>k. (k, JNull) \<in> set filter \<longrightarrow>
                          k = ''assignee'' \<and> truthy (get args ''unassigned'')))"
    by blast
next
  assume "max_converts e args"
  then obtain input where "tickets_list_input e args = Inr input"
    by (auto simp: tickets_list_input_converts)
  then show "\<exists>req. sent (snd (tickets_handleCall e ''superops_tickets_list'' args n)) = sent n @ [req]"
    using tickets_list_requests [OF assms, of args n] by auto
next
  assume "\<not> max_converts e args"
  then obtain x where "tickets_list_input e args = Inl x"
    by (cases "tickets_list_input e args") (auto simp: tickets_list_input_converts)
  then show "sent (snd (tickets_handleCall e ''superops_tickets_list'' args n)) = sent n"
    using tickets_list_requests [OF assms, of args n] by auto
qed

theorem tickets_list_unassigned_sends_null_witness:
  "getCredentials sample_env \<noteq> None
   \<and> get [(''unassigned'', JBool True)] ''unassigned'' = JBool True
   \<and> max_converts sample_env [(''unassigned'', JBool True)]
   \<and> (\<exists>req input filter.
         sent (snd (tickets_handleCall sample_env ''superops_tickets_list''
                      [(''unassigned'', JBool True)] \<lparr>cached_client = None, sent = []\<rparr>)) = [] @ [req]
         \<and> body_variables req = JObj [(''input'', JObj input)]
         \<and> map_of input ''filter'' = Some (JObj filter)
         \<and> map_of filter ''assignee'' = Some JNull
         \<and> ''status'' \<notin> fst ` set filter)
   \<and> \<not> max_converts sample_env [(''unassigned'', JBool True), (''max'', JObj [(''toString'', JNum 1)])]
   \<and> sent (snd (tickets_handleCall sample_env ''superops_tickets_list''
                   [(''unassigned'', JBool True), (''max'', JObj [(''toString'', JNum 1)])]
                   \<lparr>cached_client = None, sent = []\<rparr>)) = []"
proof -
  have h: "get [(''unassigned'', JBool True)] ''unassigned'' = JBool True"
    "\<not> truthy (get [(''unassigned'', JBool True)] ''status'')"
    "max_converts sample_env [(''unassigned'', JBool True)]"
    "\<not> max_converts sample_env [(''unassigned'', JBool True), (''max'', JObj [(''toString'', JNum 1)])]"
    by (simp_all add: get_def max_converts_def)
  note t1 = tickets_list_unassigned_sends_null [OF sample_env_credentials,
        where args = "[(''unassigned'', JBool True)]" and n = "\<lparr>cached_client = None, sent = []\<rparr>"]
  from t1 h(3) obtain req where
    r: "sent (snd (tickets_handleCall sample_env ''superops_tickets_list''
                      [(''unassigned'', JBool True)] \<lparr>cached_client = None, sent = []\<rparr>))
          = sent \<lparr>cached_client = None, sent = []\<rparr> @ [req]"
    by blast
  note a = t1 [THEN conjunct1, rule_format, OF r]
  have 1: "\<exists>req input filter.
         sent (snd (tickets_handleCall sample_env ''superops_tickets_list''
                      [(''unassigned'', JBool True)] \<lparr>cached_client = None, sent = []\<rparr>)) = [] @ [req]
         \<and> body_variables req = JObj [(''input'', JObj input)]
         \<and> map_of input ''filter'' = Some (JObj filter)
         \<and> map_of filter ''assignee'' = Some JNull
         \<and> ''status'' \<notin> fst ` set filter"
    using a r h(1,2) by auto
  have 2: "sent (snd (tickets_handleCall sample_env ''superops_tickets_list''
                   [(''unassigned'', JBool True), (''max'', JObj [(''toString'', JNum 1)])]
                   \<lparr>cached_client = None, sent = []\<rparr>)) = []"
    using tickets_list_unassigned_sends_null [OF sample_env_credentials,
        where args = "[(''unassigned'', JBool True), (''max'', JObj [(''toString'', JNum 1)])]"
          and n = "\<lparr>cached_client = None, sent = []\<rparr>"] h(4)
    by simp
  show ?thesis using 1 2 h sample_env_credentials by simp
qed


lemma tickets_create_input_priority:
  assumes "get args ''priority'' = JStr p" and "p \<noteq> []"
  shows "\<exists>input. tickets_create_input e args = Inr input
           \<and> map_of input ''priority'' = Some (JStr (toUpperCase e p))"
  using assms by (simp add: tickets_create_input_def Let_def call_toUpperCase_def assign_if_map)

lemma tickets_create_input_status:
  "tickets_create_input e args = Inr input \<Longrightarrow> map_of input ''status'' = None"
  by (auto simp: tickets_create_input_def Let_def assign_if_map split: if_splits sum.splits)

lemma tickets_update_input_priority:
  assumes "get args ''priority'' = JStr p" and "p \<noteq> []"
  shows "\<exists>input. tickets_update_input e args = Inr input
           \<and> map_of input ''priority'' = Some (JStr (toUpperCase e p))
           \<and> map_of input ''status''
                = (if truthy (get args ''status'') then Some (get args ''status'') else None)"
  using assms by (simp add: tickets_update_input_def Let_def call_toUpperCase_def assign_if_map)

lemma tickets_update_input_no_priority:
  assumes "\<not> truthy (get args ''priority'')"
  shows "\<exists>input. tickets_update_input e args = Inr input
           \<and> map_of input ''priority'' = None
           \<and> map_of input ''status''
                = (if truthy (get args ''status'') then Some (get args ''status'') else None)"
  using assms by (simp add: tickets_update_input_def Let_def assign_if_map)

lemma tickets_create_requests:
  assumes "getCredentials e \<noteq> None"
  shows "case tickets_create_input e args of
           Inl x \<Rightarrow> sent (snd (tickets_handleCall e ''superops_tickets_create'' args n)) = sent n
         | Inr input \<Rightarrow>
             (\<exists>req. sent (snd (tickets_handleCall e ''superops_tickets_create'' args n)) = sent n @ [req]
                \<and> body_query req = CREATE_TICKET_MUTATION
                \<and> body_variables req = JObj [(''input'', JObj input)])"
  by (rule built_handler_sent [OF assms,
         where sw = "\<lambda>c n'. tickets_switch e c ''superops_tickets_create'' args n'"
         and f = "''createTicket''"])
     (simp_all add: tickets_handleCall_def tickets_switch_def with_variables_def mutate_def
        split: sum.splits)

lemma tickets_update_requests:
  assumes "getCredentials e \<noteq> None"
  shows "case tickets_update_input e args of
           Inl x \<Rightarrow> sent (snd (tickets_handleCall e ''superops_tickets_update'' args n)) = sent n
         | Inr input \<Rightarrow>
             (\<exists>req. sent (snd (tickets_handleCall e ''superops_tickets_update'' args n)) = sent n @ [req]
                \<and> body_query req = UPDATE_TICKET_MUTATION
                \<and> body_variables req = JObj [(''input'', JObj input)])"
  by (rule built_handler_sent [OF assms,
         where sw = "\<lambda>c n'. tickets_switch e c ''superops_tickets_update'' args n'"
         and f = "''updateTicket''"])
     (simp_all add: tickets_handleCall_def tickets_switch_def with_variables_def mutate_def
        split: sum.splits)

lemma toUpperCase_ascii: "ascii s \<Longrightarrow> toUpperCase e s = map upper_char s"
  by (simp add: toUpperCase_def)

lemma toUpperCase_critical: "toUpperCase e ''critical'' = ''CRITICAL''"
  by (simp add: toUpperCase_def ascii_def upper_char_def)

text \<open>
  C5, as the code has it. In \<open>superops_tickets_create\<close> and \<open>superops_tickets_update\<close> a
  non-empty string \<open>priority\<close> is sent as its \<open>toUpperCase()\<close>: on plain ASCII the letters
  a to z become A to Z, so \<open>critical\<close> is sent as \<open>CRITICAL\<close>. The \<open>status\<close> of an update
  is sent as given, with no case change; a create request never has a \<open>status\<close> key. In
  every request \<open>superops_tickets_list\<close> sends, the \<open>status\<close> and \<open>priority\<close> filters are
  the arguments as given, and a request is sent whenever \<open>Math.min\<close> accepts \<open>max\<close>.
\<close>

theorem tickets_priority_uppercased_status_as_given:
  assumes "getCredentials e \<noteq> None"
  shows "(get args ''priority'' = JStr p \<and> p \<noteq> [] \<longrightarrow>
            (\<exists>req. sent (snd (tickets_handleCall e ''superops_tickets_create'' args n)) = sent n @ [req]
               \<and> body_query req = CREATE_TICKET_MUTATION
               \<and> getprop (getprop (body_variables req) ''input'') ''priority'' = JStr (toUpperCase e p))
          \<and> (\<exists>req. sent (snd (tickets_handleCall e ''superops_tickets_update'' args n)) = sent n @ [req]
               \<and> body_query req = UPDATE_TICKET_MUTATION
               \<and> getprop (getprop (body_variables req) ''input'') ''priority'' = JStr (toUpperCase e p)))
       \<and> (ascii p \<longrightarrow> toUpperCase e p = map upper_char p)
       \<and> toUpperCase e ''critical'' = ''CRITICAL''
       \<and> (truthy (get args ''status'')
            \<and> (\<not> truthy (get args ''priority'') \<or> (\<exists>q. get args ''priority'' = JStr q)) \<longrightarrow>
            (\<exists>req. sent (snd (tickets_handleCall e ''superops_tickets_update'' args n)) = sent n @ [req]
               \<and> body_query req = UPDATE_TICKET_MUTATION
               \<and> getprop (getprop (body_variables req) ''input'') ''status'' = get args ''status''))
       \<and> (\<forall>req. sent (snd (tickets_handleCall e ''superops_tickets_create'' args n)) = sent n @ [req]
            \<longrightarrow> (\<exists>input. body_variables req = JObj [(''input'', JObj input)]
                    \<and> map_of input ''status'' = None))
       \<and> (\<forall>req. sent (snd (tickets_handleCall e ''superops_tickets_list'' args n)) = sent n @ [req]
            \<longrightarrow> (truthy (get args ''status'') \<longrightarrow>
                    getprop (getprop (getprop (body_variables req) ''input'') ''filter'') ''status''
                      = get args ''status'')
               \<and> (truthy (get args ''priority'') \<longrightarrow>
                    getprop (getprop (getprop (body_variables req) ''input'') ''filter'') ''priority''
                      = get args ''priority''))
       \<and> (max_converts e args \<longrightarrow>
            (\<exists>req. sent (snd (tickets_handleCall e ''superops_tickets_list'' args n)) = sent n @ [req]))"
proof -
  have c1: "get args ''priority'' = JStr p \<and> p \<noteq> [] \<longrightarrow>
            (\<exists>req. sent (snd (tickets_handleCall e ''superops_tickets_create'' args n)) = sent n @ [req]
               \<and> body_query req = CREATE_TICKET_MUTATION
               \<and> getprop (getprop (body_variables req) ''input'') ''priority'' = JStr (toUpperCase e p))
          \<and> (\<exists>req. sent (snd (tickets_handleCall e ''superops_tickets_update'' args n)) = sent n @ [req]
               \<and> body_query req = UPDATE_TICKET_MUTATION
               \<and> getprop (getprop (body_variables req) ''input'') ''priority'' = JStr (toUpperCase e p))"
  proof (intro impI conjI)
    assume a: "get args ''priority'' = JStr p \<and> p \<noteq> []"
    then obtain input where i: "tickets_create_input e args = Inr input"
        "map_of input ''priority'' = Some (JStr (toUpperCase e p))"
      using tickets_create_input_priority by blast
    from tickets_create_requests [OF assms, of args n] i
    show "\<exists>req. sent (snd (tickets_handleCall e ''superops_tickets_create'' args n)) = sent n @ [req]
               \<and> body_query req = CREATE_TICKET_MUTATION
               \<and> getprop (getprop (body_variables req) ''input'') ''priority'' = JStr (toUpperCase e p)"
      by auto
    from a obtain input' where u: "tickets_update_input e args = Inr input'"
        "map_of input' ''priority'' = Some (JStr (toUpperCase e p))"
      using tickets_update_input_priority by blast
    from tickets_update_requests [OF assms, of args n] u
    show "\<exists>req. sent (snd (tickets_handleCall e ''superops_tickets_update'' args n)) = sent n @ [req]
               \<and> body_query req = UPDATE_TICKET_MUTATION
               \<and> getprop (getprop (body_variables req) ''input'') ''priority'' = JStr (toUpperCase e p)"
      by auto
  qed
  have c2: "ascii p \<longrightarrow> toUpperCase e p = map upper_char p"
    by (simp add: toUpperCase_ascii)
  have c3: "toUpperCase e ''critical'' = ''CRITICAL''"
    by (rule toUpperCase_critical)
  have c4: "truthy (get args ''status'')
            \<and> (\<not> truthy (get args ''priority'') \<or> (\<exists>q. get args ''priority'' = JStr q)) \<longrightarrow>
            (\<exists>req. sent (snd (tickets_handleCall e ''superops_tickets_update'' args n)) = sent n @ [req]
               \<and> body_query req = UPDATE_TICKET_MUTATION
               \<and> getprop (getprop (body_variables req) ''input'') ''status'' = get args ''status'')"
  proof
    assume a: "truthy (get args ''status'')
            \<and> (\<not> truthy (get args ''priority'') \<or> (\<exists>q. get args ''priority'' = JStr q))"
    have "\<exists>input. tickets_update_input e args = Inr input
             \<and> map_of input ''status'' = Some (get args ''status'')"
    proof (cases "truthy (get args ''priority'')")
      case True
      with a obtain q where "get args ''priority'' = JStr q" "q \<noteq> []" by auto
      from tickets_update_input_priority [OF this] a show ?thesis by auto
    next
      case False
      from tickets_update_input_no_priority [OF this] a show ?thesis by auto
    qed
    then obtain input where u: "tickets_update_input e args = Inr input"
        "map_of input ''status'' = Some (get args ''status'')" by blast
    from tickets_update_requests [OF assms, of args n] u
    show "\<exists>req. sent (snd (tickets_handleCall e ''superops_tickets_update'' args n)) = sent n @ [req]
               \<and> body_query req = UPDATE_TICKET_MUTATION
               \<and> getprop (getprop (body_variables req) ''input'') ''status'' = get args ''status''"
      by auto
  qed
  have c5: "\<forall>req. sent (snd (tickets_handleCall e ''superops_tickets_create'' args n)) = sent n @ [req]
            \<longrightarrow> (\<exists>input. body_variables req = JObj [(''input'', JObj input)]
                    \<and> map_of input ''status'' = None)"
  proof (intro allI impI)
    fix req
    assume "sent (snd (tickets_handleCall e ''superops_tickets_create'' args n)) = sent n @ [req]"
    from built_handler_issued [OF tickets_create_requests [OF assms, of args n] this]
    obtain input where "tickets_create_input e args = Inr input"
        "body_variables req = JObj [(''input'', JObj input)]" by blast
    then show "\<exists>input. body_variables req = JObj [(''input'', JObj input)]
                    \<and> map_of input ''status'' = None"
      using tickets_create_input_status by blast
  qed
  have c6: "\<forall>req. sent (snd (tickets_handleCall e ''superops_tickets_list'' args n)) = sent n @ [req]
            \<longrightarrow> (truthy (get args ''status'') \<longrightarrow>
                    getprop (getprop (getprop (body_variables req) ''input'') ''filter'') ''status''
                      = get args ''status'')
               \<and> (truthy (get args ''priority'') \<longrightarrow>
                    getprop (getprop (getprop (body_variables req) ''input'') ''filter'') ''priority''
                      = get args ''priority'')"
  proof (intro allI impI)
    fix req
    assume s: "sent (snd (tickets_handleCall e ''superops_tickets_list'' args n)) = sent n @ [req]"
    from built_handler_issued [OF tickets_list_requests [OF assms, of args n] s]
    obtain input where i: "tickets_list_input e args = Inr input"
        "body_variables req = JObj [(''input'', JObj input)]" by blast
    note f = tickets_list_input_filter [OF i(1)]
    show "(truthy (get args ''status'') \<longrightarrow>
                    getprop (getprop (getprop (body_variables req) ''input'') ''filter'') ''status''
                      = get args ''status'')
               \<and> (truthy (get args ''priority'') \<longrightarrow>
                    getprop (getprop (getprop (body_variables req) ''input'') ''filter'') ''priority''
                      = get args ''priority'')"
      using tickets_list_filter_keys [of args]
      by (auto simp: i(2) f tickets_list_filter_map)
  qed
  have c7: "max_converts e args \<longrightarrow>
            (\<exists>req. sent (snd (tickets_handleCall e ''superops_tickets_list'' args n)) = sent n @ [req])"
  proof
    assume "max_converts e args"
    then obtain input where "tickets_list_input e args = Inr input"
      by (auto simp: tickets_list_input_converts)
    then show "\<exists>req. sent (snd (tickets_handleCall e ''superops_tickets_list'' args n)) = sent n @ [req]"
      using tickets_list_requests [OF assms, of args n] by auto
  qed
  from c1 c2 c3 c4 c5 c6 c7 show ?thesis by (intro conjI)
qed

theorem tickets_priority_uppercased_status_as_given_witness:
  "getCredentials sample_env \<noteq> None
   \<and> get [(''ticketId'', JStr ''ticket-123''), (''status'', JStr ''Resolved''), (''priority'', JStr ''Low'')]
        ''priority'' = JStr ''Low'' \<and> ''Low'' \<noteq> [] \<and> ascii ''Low''
   \<and> truthy (get [(''ticketId'', JStr ''ticket-123''), (''status'', JStr ''Resolved''),
                   (''priority'', JStr ''Low'')] ''status'')
   \<and> max_converts sample_env
        [(''ticketId'', JStr ''ticket-123''), (''status'', JStr ''Resolved''), (''priority'', JStr ''Low'')]
   \<and> (\<exists>req. sent (snd (tickets_handleCall sample_env ''superops_tickets_update''
          [(''ticketId'', JStr ''ticket-123''), (''status'', JStr ''Resolved''), (''priority'', JStr ''Low'')]
          \<lparr>cached_client = None, sent = []\<rparr>)) = [] @ [req]
        \<and> getprop (getprop (body_variables req) ''input'') ''priority'' = JStr ''LOW'')
   \<and> (\<exists>req. sent (snd (tickets_handleCall sample_env ''superops_tickets_update''
          [(''ticketId'', JStr ''ticket-123''), (''status'', JStr ''Resolved''), (''priority'', JStr ''Low'')]
          \<lparr>cached_client = None, sent = []\<rparr>)) = [] @ [req]
        \<and> getprop (getprop (body_variables req) ''input'') ''status'' = JStr ''Resolved'')
   \<and> (\<exists>req input. sent (snd (tickets_handleCall sample_env ''superops_tickets_create''
          [(''ticketId'', JStr ''ticket-123''), (''status'', JStr ''Resolved''), (''priority'', JStr ''Low'')]
          \<lparr>cached_client = None, sent = []\<rparr>)) = [] @ [req]
        \<and> body_variables req = JObj [(''input'', JObj input)]
        \<and> map_of input ''status'' = None)
   \<and> (\<exists>req. sent (snd (tickets_handleCall sample_env ''superops_tickets_list''
          [(''ticketId'', JStr ''ticket-123''), (''status'', JStr ''Resolved''), (''priority'', JStr ''Low'')]
          \<lparr>cached_client = None, sent = []\<rparr>)) = [] @ [req]
        \<and> getprop (getprop (getprop (body_variables req) ''input'') ''filter'') ''priority''
             = JStr ''Low'')"
proof -
  let ?args = "[(''ticketId'', JStr ''ticket-123''), (''status'', JStr ''Resolved''), (''priority'', JStr ''Low'')]"
  let ?n = "\<lparr>cached_client = None, sent = []\<rparr>"
  have h: "get ?args ''priority'' = JStr ''Low''" "truthy (get ?args ''status'')"
    "get ?args ''status'' = JStr ''Resolved''" "map upper_char ''Low'' = ''LOW''"
    "truthy (get ?args ''priority'')" "ascii ''Low''" "max_converts sample_env ?args"
    by (simp_all add: get_def upper_char_def ascii_def max_converts_def)
  note t = tickets_priority_uppercased_status_as_given [OF sample_env_credentials,
        where args = ?args and p = "''Low''" and n = ?n]
  have up: "toUpperCase sample_env ''Low'' = ''LOW''" using t h(4,6) by simp
  have 1: "\<exists>req. sent (snd (tickets_handleCall sample_env ''superops_tickets_update'' ?args ?n)) = [] @ [req]
        \<and> getprop (getprop (body_variables req) ''input'') ''priority'' = JStr ''LOW''"
    using t h(1) up by auto
  have 2: "\<exists>req. sent (snd (tickets_handleCall sample_env ''superops_tickets_update'' ?args ?n)) = [] @ [req]
        \<and> getprop (getprop (body_variables req) ''input'') ''status'' = JStr ''Resolved''"
    using t h(1,2,3) by auto
  from t h(1) obtain rc where
    rc: "sent (snd (tickets_handleCall sample_env ''superops_tickets_create'' ?args ?n)) = sent ?n @ [rc]"
    by auto
  note tc = t [THEN conjunct2, THEN conjunct2, THEN conjunct2, THEN conjunct2, THEN conjunct1,
               rule_format, OF rc]
  have 3: "\<exists>req input. sent (snd (tickets_handleCall sample_env ''superops_tickets_create'' ?args ?n))
          = [] @ [req]
        \<and> body_variables req = JObj [(''input'', JObj input)]
        \<and> map_of input ''status'' = None"
    using tc rc by auto
  from t h(7) obtain rl where
    rl: "sent (snd (tickets_handleCall sample_env ''superops_tickets_list'' ?args ?n)) = sent ?n @ [rl]"
    by auto
  note tl = t [THEN conjunct2, THEN conjunct2, THEN conjunct2, THEN conjunct2, THEN conjunct2,
               THEN conjunct1, rule_format, OF rl]
  have 4: "\<exists>req. sent (snd (tickets_handleCall sample_env ''superops_tickets_list'' ?args ?n)) = [] @ [req]
        \<and> getprop (getprop (getprop (body_variables req) ''input'') ''filter'') ''priority''
             = JStr ''Low''"
    using tl rl h(1,5) by auto
  show ?thesis
    using 1 2 3 4 h sample_env_credentials by simp
qed

text \<open>
  The claim as written fails on the status of an update: \<open>status: "resolved"\<close> is sent
  as \<open>"resolved"\<close>, which is not its upper-case form.
\<close>

theorem tickets_update_status_counterexample:
  "map body_variables (sent (snd (tickets_handleCall sample_env ''superops_tickets_update''
       [(''ticketId'', JStr ''ticket-123''), (''status'', JStr ''resolved'')]
       \<lparr>cached_client = None, sent = []\<rparr>)))
     = [JObj [(''input'', JObj [(''ticketId'', JStr ''ticket-123''), (''status'', JStr ''resolved'')])]]
   \<and> toUpperCase sample_env ''resolved'' = ''RESOLVED''
   \<and> JStr ''resolved'' \<noteq> JStr (toUpperCase sample_env ''resolved'')"
  by (simp add: tickets_handleCall_def getClient_def getCredentials_def sample_env_def
        new_SuperOpsClient_def tickets_switch_def tickets_update_input_def get_def assign_if_def
        mutate_def query_def sample_response_def respond_with_def catch_block_def Let_def
        toUpperCase_def ascii_def upper_char_def errors_nonempty_def)


subsection \<open>The transport client\<close>

lemma query_request: "sent (snd (query e c q v n)) = sent n @ [request_for c q v]"
  by (simp add: query_def request_for_def Let_def split: fetch_outcome.splits json_outcome.splits
        sum.splits)



lemma member_object: "member (JObj kvs) k = Inr (get kvs k)"
  by (simp add: get_def)


lemma errors_nonempty_absent:
  "get kvs ''errors'' = JUndef \<or> get kvs ''errors'' = JNull \<or> get kvs ''errors'' = JArr [] \<Longrightarrow>
   errors_nonempty e (JObj kvs) = Inr False"
  by (auto simp: errors_nonempty_def member_object greater_than_zero_def simp del: member.simps(3))







lemma query_result:
  "fst (query e c q v n) =
     (case fetch e (request_for c q v) of
        FetchRejected x \<Rightarrow> Inl x
      | Responded response \<Rightarrow>
          if \<not> ok response
          then Inl (JsError (''HTTP error: '' @ decimal (status response) @ '' ''
                               @ statusText response))
          else (case json response of
                  JsonRejected x \<Rightarrow> Inl x
                | JsonParsed result \<Rightarrow>
                    (case errors_nonempty e result of
                       Inl x \<Rightarrow> Inl x
                     | Inr has_errors \<Rightarrow>
                         if has_errors then Inl (first_error e result)
                         else (case member result ''data'' of
                                 Inl x \<Rightarrow> Inl x
                               | Inr d \<Rightarrow>
                                   if \<not> truthy d
                                   then Inl (JsError ''No data returned from GraphQL query'')
                                   else Inr d))))"
  by (simp add: query_def request_for_def Let_def split: fetch_outcome.splits json_outcome.splits
        sum.splits)





subsection \<open>The dispatch boundary of the domain modules\<close>








subsection \<open>Fallback resolution\<close>

lemma handle_domain_call_fallback:
  assumes ok: "cache_ok (domainCache s)"
    and other: "\<forall>cd. currentDomain s = Some cd \<longrightarrow> \<not> has_tool (import_domain cd) name"
  shows "\<exists>cache''.
     handle_domain_call e name args s =
       (case find (\<lambda>d. has_tool (import_domain d) name) allDomains of
          Some d \<Rightarrow>
            (fst (handleCall (import_domain d) e name (args_or_empty args) (client_module s)),
             s\<lparr>currentDomain := Some d, domainCache := cache'',
               client_module := snd (handleCall (import_domain d) e name (args_or_empty args)
                                       (client_module s))\<rparr>)
        | None \<Rightarrow>
            (Inr (error_result (''Unknown tool: '' @ name
                    @ ''. Use superops_navigate to explore available tools.'')),
             s\<lparr>domainCache := cache''\<rparr>))"
proof -
  define c1 where "c1 = (case currentDomain s of None \<Rightarrow> domainCache s
                         | Some cd \<Rightarrow> snd (loadDomain cd (domainCache s)))"
  have c1_ok: "cache_ok c1"
    using ok by (simp add: c1_def loadDomain_snd split: option.splits)
  have first:
    "(case currentDomain s of
        None \<Rightarrow> (None, domainCache s)
      | Some cd \<Rightarrow>
          (let (domainTools, cache') = loadDomain cd (domainCache s)
           in (if has_tool domainTools name then Some domainTools else None, cache')))
     = (None, c1)"
  proof (cases "currentDomain s")
    case None
    then show ?thesis by (simp add: c1_def)
  next
    case (Some cd)
    obtain t c' where l: "loadDomain cd (domainCache s) = (t, c')"
      by (cases "loadDomain cd (domainCache s)")
    with ok have "t = import_domain cd" using loadDomain_fst [of "domainCache s" cd] by simp
    with other Some have "\<not> has_tool t name" by simp
    with Some l show ?thesis by (simp add: c1_def)
  qed
  obtain found c2 where f: "find_tool_domain name allDomains c1 = (found, c2)"
    by (cases "find_tool_domain name allDomains c1")
  have found: "found = map_option (\<lambda>d. (d, import_domain d))
                         (find (\<lambda>d. has_tool (import_domain d) name) allDomains)"
    using find_tool_domain_fst [OF c1_ok, of name allDomains] f by simp
  show ?thesis
    by (rule exI [of _ c2])
       (simp add: handle_domain_call_def first f found split_beta split: option.splits)
qed

lemma query_answered:
  assumes "\<forall>req. \<exists>resp kvs. fetch e req = Responded resp \<and> ok resp
              \<and> json resp = JsonParsed (JObj kvs)
              \<and> (get kvs ''errors'' = JUndef \<or> get kvs ''errors'' = JNull
                   \<or> get kvs ''errors'' = JArr [])
              \<and> truthy (get kvs ''data'')"
  shows "\<exists>payload. fst (query e c q v n) = Inr payload"
proof -
  from assms obtain resp kvs where r:
    "fetch e (request_for c q v) = Responded resp" "ok resp" "json resp = JsonParsed (JObj kvs)"
    and a: "get kvs ''errors'' = JUndef \<or> get kvs ''errors'' = JNull \<or> get kvs ''errors'' = JArr []"
    and t: "truthy (get kvs ''data'')" by blast
  from a have "errors_nonempty e (JObj kvs) = Inr False" by (rule errors_nonempty_absent)
  with r t show ?thesis
    by (simp add: query_result member_object del: member.simps(3))
qed

lemma respond_with_answered:
  "\<exists>payload. fst r = Inr payload \<Longrightarrow>
   \<exists>res. fst (respond_with e f r) = Inr res \<and> isError res = None"
  by (cases r) (auto simp: respond_with_def text_result_def)

lemma catch_block_answered:
  "\<exists>res. fst r = Inr res \<and> isError res = None \<Longrightarrow>
   \<exists>res. fst (catch_block e r) = Inr res \<and> isError res = None"
  by (cases r) (auto simp: catch_block_def)

lemma has_tool_clients:
  "has_tool getClientsTools name \<longleftrightarrow>
     name = ''superops_clients_list'' \<or> name = ''superops_clients_get''
     \<or> name = ''superops_clients_search''"
  by (auto simp: has_tool_def getClientsTools_def clients_tools_def)

lemma clients_handleCall_answered:
  assumes "getCredentials e \<noteq> None"
    and "has_tool (import_domain Clients) name"
    and "\<forall>req. \<exists>resp kvs. fetch e req = Responded resp \<and> ok resp
              \<and> json resp = JsonParsed (JObj kvs)
              \<and> (get kvs ''errors'' = JUndef \<or> get kvs ''errors'' = JNull
                   \<or> get kvs ''errors'' = JArr [])
              \<and> truthy (get kvs ''data'')"
    and "max_converts e args"
  shows "\<exists>res. fst (clients_handleCall e name args n) = Inr res \<and> isError res = None"
proof -
  from assms(1) obtain c where c: "getClient e n = (Inr c, n\<lparr>cached_client := Some c\<rparr>)"
    using getClient_with_credentials by blast
  from assms(4) obtain f1 where f1:
    "Math_min e (nullish (get args ''max'') (JNum 50)) 500 = Inr f1"
    using Math_min_converts [of e args 50 500] by blast
  from assms(4) obtain f2 where f2:
    "Math_min e (nullish (get args ''max'') (JNum 20)) 100 = Inr f2"
    using Math_min_converts [of e args 20 100] by blast
  have l: "\<exists>input. clients_list_input e args = Inr input"
    by (simp add: clients_list_input_def f1 Let_def)
  have s: "\<exists>input. clients_search_input e args = Inr input"
    by (simp add: clients_search_input_def f2)
  from l obtain li where li: "clients_list_input e args = Inr li" by blast
  from s obtain si where si: "clients_search_input e args = Inr si" by blast
  note q = query_answered [OF assms(3)]
  from assms(2) have names: "name = ''superops_clients_list'' \<or> name = ''superops_clients_get''
      \<or> name = ''superops_clients_search''" by (simp add: has_tool_clients)
  have "\<exists>res. fst (clients_switch e c name args (n\<lparr>cached_client := Some c\<rparr>)) = Inr res
           \<and> isError res = None"
  proof -
    consider "name = ''superops_clients_list''" | "name = ''superops_clients_get''"
      | "name = ''superops_clients_search''" using names by blast
    then show ?thesis
    proof cases
      case 1
      then show ?thesis
        by (simp add: clients_switch_def with_variables_def li respond_with_answered [OF q])
    next
      case 2
      then show ?thesis
        by (simp add: clients_switch_def respond_with_answered [OF q])
    next
      case 3
      then show ?thesis
        by (simp add: clients_switch_def with_variables_def si respond_with_answered [OF q])
    qed
  qed
  then show ?thesis
    by (simp add: clients_handleCall_def c catch_block_answered)
qed

text \<open>
  C1. A call whose name is none of the three navigation tools and not a tool of the active
  domain (or there is no active domain), with credentials configured: the domains are
  searched in the order clients, tickets, assets, technicians, custom; the first whose
  catalog has the name becomes the active domain and the result of the call is what that
  module's \<open>handleCall\<close> gives; when no catalog has the name the result is the error
  \<open>Unknown tool: <name>. Use superops_navigate to explore available tools.\<close> and the
  active domain stays as it was. In particular a clients tool called in navigation mode
  makes clients the active domain and is answered by the clients module; its result is
  returned with no error flag whenever the transport answers every request with an object
  that has no errors and a truthy \<open>data\<close>, and \<open>max\<close> converts to a number.
\<close>

theorem fallback_resolution:
  assumes "name \<noteq> ''superops_test_connection''"
    and "name \<noteq> ''superops_navigate''"
    and "name \<noteq> ''superops_back''"
    and "getCredentials e \<noteq> None"
    and "cache_ok (domainCache s)"
    and "\<forall>cd. currentDomain s = Some cd \<longrightarrow> \<not> has_tool (import_domain cd) name"
  shows "allDomains = [Clients, Tickets, Assets, Technicians, Custom]
       \<and> (\<forall>d. find (\<lambda>d. has_tool (import_domain d) name) allDomains = Some d \<longrightarrow>
            currentDomain (snd (call_tool e name args s)) = Some d
            \<and> fst (call_tool e name args s)
                = fst (handleCall (import_domain d) e name (args_or_empty args) (client_module s)))
       \<and> (find (\<lambda>d. has_tool (import_domain d) name) allDomains = None \<longrightarrow>
            fst (call_tool e name args s)
              = Inr (error_result (''Unknown tool: '' @ name
                       @ ''. Use superops_navigate to explore available tools.''))
            \<and> currentDomain (snd (call_tool e name args s)) = currentDomain s)
       \<and> (currentDomain s = None \<and> has_tool (import_domain Clients) name \<longrightarrow>
            currentDomain (snd (call_tool e name args s)) = Some Clients
            \<and> fst (call_tool e name args s)
                = fst (clients_handleCall e name (args_or_empty args) (client_module s))
            \<and> ((\<forall>req. \<exists>resp kvs. fetch e req = Responded resp \<and> ok resp
                    \<and> json resp = JsonParsed (JObj kvs)
                    \<and> (get kvs ''errors'' = JUndef \<or> get kvs ''errors'' = JNull
                         \<or> get kvs ''errors'' = JArr [])
                    \<and> truthy (get kvs ''data''))
                \<and> max_converts e (args_or_empty args) \<longrightarrow>
                (\<exists>res. fst (call_tool e name args s) = Inr res \<and> isError res = None)))"
proof -
  let ?P = "\<lambda>d. has_tool (import_domain d) name"
  from assms(4) obtain creds where creds: "getCredentials e = Some creds" by auto
  have ct: "call_tool e name args s = handle_domain_call e name args s"
    using assms(1-3) by (simp add: call_tool_def creds)
  from handle_domain_call_fallback [OF assms(5,6), of e args] obtain cache'' where
    hd: "handle_domain_call e name args s =
       (case find ?P allDomains of
          Some d \<Rightarrow>
            (fst (handleCall (import_domain d) e name (args_or_empty args) (client_module s)),
             s\<lparr>currentDomain := Some d, domainCache := cache'',
               client_module := snd (handleCall (import_domain d) e name (args_or_empty args)
                                       (client_module s))\<rparr>)
        | None \<Rightarrow>
            (Inr (error_result (''Unknown tool: '' @ name
                    @ ''. Use superops_navigate to explore available tools.'')),
             s\<lparr>domainCache := cache''\<rparr>))" by blast
  have 1: "allDomains = [Clients, Tickets, Assets, Technicians, Custom]"
    by (simp add: allDomains_def)
  have 2: "\<forall>d. find ?P allDomains = Some d \<longrightarrow>
            currentDomain (snd (call_tool e name args s)) = Some d
            \<and> fst (call_tool e name args s)
                = fst (handleCall (import_domain d) e name (args_or_empty args) (client_module s))"
    by (simp add: ct hd)
  have 3: "find ?P allDomains = None \<longrightarrow>
            fst (call_tool e name args s)
              = Inr (error_result (''Unknown tool: '' @ name
                       @ ''. Use superops_navigate to explore available tools.''))
            \<and> currentDomain (snd (call_tool e name args s)) = currentDomain s"
    by (simp add: ct hd)
  have 4: "currentDomain s = None \<and> has_tool (import_domain Clients) name \<longrightarrow>
            currentDomain (snd (call_tool e name args s)) = Some Clients
            \<and> fst (call_tool e name args s)
                = fst (clients_handleCall e name (args_or_empty args) (client_module s))
            \<and> ((\<forall>req. \<exists>resp kvs. fetch e req = Responded resp \<and> ok resp
                    \<and> json resp = JsonParsed (JObj kvs)
                    \<and> (get kvs ''errors'' = JUndef \<or> get kvs ''errors'' = JNull
                         \<or> get kvs ''errors'' = JArr [])
                    \<and> truthy (get kvs ''data''))
                \<and> max_converts e (args_or_empty args) \<longrightarrow>
                (\<exists>res. fst (call_tool e name args s) = Inr res \<and> isError res = None))"
  proof (intro impI)
    assume a: "currentDomain s = None \<and> has_tool (import_domain Clients) name"
    then have f: "find ?P allDomains = Some Clients" by (simp add: allDomains_def)
    have r: "fst (call_tool e name args s)
        = fst (clients_handleCall e name (args_or_empty args) (client_module s))"
      by (simp add: ct hd f getClientsTools_def)
    have d: "currentDomain (snd (call_tool e name args s)) = Some Clients"
      by (simp add: ct hd f)
    have w: "(\<forall>req. \<exists>resp kvs. fetch e req = Responded resp \<and> ok resp
                    \<and> json resp = JsonParsed (JObj kvs)
                    \<and> (get kvs ''errors'' = JUndef \<or> get kvs ''errors'' = JNull
                         \<or> get kvs ''errors'' = JArr [])
                    \<and> truthy (get kvs ''data''))
                \<and> max_converts e (args_or_empty args) \<longrightarrow>
                (\<exists>res. fst (call_tool e name args s) = Inr res \<and> isError res = None)"
      using a clients_handleCall_answered [OF assms(4), of name "args_or_empty args" "client_module s"]
      unfolding r by blast
    from d r w show "currentDomain (snd (call_tool e name args s)) = Some Clients
            \<and> fst (call_tool e name args s)
                = fst (clients_handleCall e name (args_or_empty args) (client_module s))
            \<and> ((\<forall>req. \<exists>resp kvs. fetch e req = Responded resp \<and> ok resp
                    \<and> json resp = JsonParsed (JObj kvs)
                    \<and> (get kvs ''errors'' = JUndef \<or> get kvs ''errors'' = JNull
                         \<or> get kvs ''errors'' = JArr [])
                    \<and> truthy (get kvs ''data''))
                \<and> max_converts e (args_or_empty args) \<longrightarrow>
                (\<exists>res. fst (call_tool e name args s) = Inr res \<and> isError res = None))"
      by blast
  qed
  from 1 2 3 4 show ?thesis by blast
qed

lemma sample_env_answers:
  "\<forall>req. \<exists>resp kvs. fetch sample_env req = Responded resp \<and> ok resp
     \<and> json resp = JsonParsed (JObj kvs)
     \<and> (get kvs ''errors'' = JUndef \<or> get kvs ''errors'' = JNull \<or> get kvs ''errors'' = JArr [])
     \<and> truthy (get kvs ''data'')"
  by (simp add: sample_env_def sample_response_def get_def)

theorem fallback_resolution_witness:
  "''superops_clients_list'' \<noteq> ''superops_test_connection''
   \<and> ''superops_clients_list'' \<noteq> ''superops_navigate''
   \<and> ''superops_clients_list'' \<noteq> ''superops_back''
   \<and> getCredentials sample_env \<noteq> None
   \<and> cache_ok (domainCache initial_state)
   \<and> currentDomain initial_state = None
   \<and> has_tool (import_domain Clients) ''superops_clients_list''
   \<and> max_converts sample_env (args_or_empty None)
   \<and> currentDomain (snd (call_tool sample_env ''superops_clients_list'' None initial_state))
       = Some Clients
   \<and> (\<exists>res. fst (call_tool sample_env ''superops_clients_list'' None initial_state) = Inr res
         \<and> isError res = None)
   \<and> currentDomain tickets_state = Some Tickets
   \<and> \<not> has_tool (import_domain Tickets) ''superops_assets_get''
   \<and> find (\<lambda>d. has_tool (import_domain d) ''superops_assets_get'') allDomains = Some Assets
   \<and> currentDomain (snd (call_tool sample_env ''superops_assets_get'' None tickets_state))
       = Some Assets
   \<and> find (\<lambda>d. has_tool (import_domain d) ''superops_invoices_list'') allDomains = None
   \<and> fst (call_tool sample_env ''superops_invoices_list'' None initial_state)
       = Inr (error_result
           ''Unknown tool: superops_invoices_list. Use superops_navigate to explore available tools.'')"
proof -
  note tool_defs = allDomains_def has_tool_def getClientsTools_def getTicketsTools_def
    getAssetsTools_def getTechniciansTools_def getCustomTools_def clients_tools_def
    tickets_tools_def assets_tools_def technicians_tools_def custom_tools_def
  have n: "currentDomain initial_state = None" by (simp add: initial_state_def)
  have t: "currentDomain tickets_state = Some Tickets" by (simp add: tickets_state_def)
  have h: "has_tool (import_domain Clients) ''superops_clients_list''"
    by (simp add: has_tool_clients)
  have nt: "\<not> has_tool (import_domain Tickets) ''superops_assets_get''"
    by (simp add: tool_defs)
  have fa: "find (\<lambda>d. has_tool (import_domain d) ''superops_assets_get'') allDomains = Some Assets"
    by (simp add: tool_defs)
  have u: "find (\<lambda>d. has_tool (import_domain d) ''superops_invoices_list'') allDomains = None"
    by (simp add: tool_defs)
  have c: "cache_ok (domainCache initial_state)" by (rule initial_cache_ok)
  have ct: "cache_ok (domainCache tickets_state)"
    by (simp add: cache_ok_def tickets_state_def initial_state_def)
  have a: "\<forall>cd. currentDomain initial_state = Some cd \<longrightarrow> \<not> has_tool (import_domain cd) name" for name
    by (simp add: n)
  have at: "\<forall>cd. currentDomain tickets_state = Some cd
              \<longrightarrow> \<not> has_tool (import_domain cd) ''superops_assets_get''"
    using nt by (simp add: t)
  have mc: "max_converts sample_env (args_or_empty None)"
    by (simp add: max_converts_simple args_or_empty_def get_def)
  note r1 = fallback_resolution [where name = "''superops_clients_list''" and e = sample_env
            and s = initial_state and args = None, OF _ _ _ sample_env_credentials c a]
  note r2 = fallback_resolution [where name = "''superops_invoices_list''" and e = sample_env
            and s = initial_state and args = None, OF _ _ _ sample_env_credentials c a]
  note r3 = fallback_resolution [where name = "''superops_assets_get''" and e = sample_env
            and s = tickets_state and args = None, OF _ _ _ sample_env_credentials ct at]
  have 1: "currentDomain (snd (call_tool sample_env ''superops_clients_list'' None initial_state))
       = Some Clients
     \<and> (\<exists>res. fst (call_tool sample_env ''superops_clients_list'' None initial_state) = Inr res
         \<and> isError res = None)"
    using r1 n h sample_env_answers mc by blast
  have 2: "fst (call_tool sample_env ''superops_invoices_list'' None initial_state)
       = Inr (error_result
           ''Unknown tool: superops_invoices_list. Use superops_navigate to explore available tools.'')"
    using r2 u by simp
  have 3: "currentDomain (snd (call_tool sample_env ''superops_assets_get'' None tickets_state))
       = Some Assets"
    using r3 fa by simp
  show ?thesis
    using 1 2 3 sample_env_credentials c n t h nt fa u mc by simp
qed

end
